theory Spec2Isabelle
  imports Complex_Main
begin

section \<open>Text\<close>

text \<open>
  A Python \<open>str\<close> is modelled as a \<open>string\<close> whose characters are the code points
  0 to 255 (Latin-1), one \<open>char\<close> per code point. The character classes below are the ones
  Python's \<open>str\<close> methods and the \<open>re\<close> module use on \<open>str\<close> patterns, restricted to that
  range. \<open>str.upper\<close> leaves the range at three code points (0xB5, 0xDF, 0xFF, whose upper-case
  forms are U+039C, \<open>SS\<close> and U+0178); \<open>upper_char\<close> leaves those three unchanged, which is the
  one place where the model departs from Python inside the range.
\<close>

datatype py_error = IndexError | KeyError | ValueError | OverflowError | ZeroDivisionError
  | TypeError | AttributeError | NotModelled

definition sq :: char where "sq = CHR 0x27"
definition dq :: char where "dq = CHR 0x22"
definition bsl :: char where "bsl = CHR 0x5C"

definition latin1_lower :: string where
  "latin1_lower = [CHR 0xE0, CHR 0xE1, CHR 0xE2, CHR 0xE3, CHR 0xE4, CHR 0xE5, CHR 0xE6, CHR 0xE7,
     CHR 0xE8, CHR 0xE9, CHR 0xEA, CHR 0xEB, CHR 0xEC, CHR 0xED, CHR 0xEE, CHR 0xEF, CHR 0xF0,
     CHR 0xF1, CHR 0xF2, CHR 0xF3, CHR 0xF4, CHR 0xF5, CHR 0xF6, CHR 0xF8, CHR 0xF9, CHR 0xFA,
     CHR 0xFB, CHR 0xFC, CHR 0xFD, CHR 0xFE]"

definition latin1_upper :: string where
  "latin1_upper = [CHR 0xC0, CHR 0xC1, CHR 0xC2, CHR 0xC3, CHR 0xC4, CHR 0xC5, CHR 0xC6, CHR 0xC7,
     CHR 0xC8, CHR 0xC9, CHR 0xCA, CHR 0xCB, CHR 0xCC, CHR 0xCD, CHR 0xCE, CHR 0xCF, CHR 0xD0,
     CHR 0xD1, CHR 0xD2, CHR 0xD3, CHR 0xD4, CHR 0xD5, CHR 0xD6, CHR 0xD8, CHR 0xD9, CHR 0xDA,
     CHR 0xDB, CHR 0xDC, CHR 0xDD, CHR 0xDE]"

definition lower_letters :: string where
  "lower_letters = ''abcdefghijklmnopqrstuvwxyz'' @ latin1_lower"

definition upper_letters :: string where
  "upper_letters = ''ABCDEFGHIJKLMNOPQRSTUVWXYZ'' @ latin1_upper"

text \<open>\<open>str.isspace\<close>, which is also what \<open>str.split()\<close>, \<open>str.strip()\<close> and \<open>\s\<close> use.\<close>

definition isspace :: "char \<Rightarrow> bool" where
  "isspace c = (c \<in> set [CHR 0x09, CHR 0x0A, CHR 0x0B, CHR 0x0C, CHR 0x0D, CHR 0x1C, CHR 0x1D,
                            CHR 0x1E, CHR 0x1F, CHR 0x20, CHR 0x85, CHR 0xA0])"

text \<open>\<open>\d\<close>: the decimal digits.\<close>

definition is_decimal :: "char \<Rightarrow> bool" where
  "is_decimal c = (c \<in> set ''0123456789'')"

text \<open>\<open>str.isdigit\<close> for one character: the decimal digits and the superscripts 2, 3 and 1.\<close>

definition isdigit_char :: "char \<Rightarrow> bool" where
  "isdigit_char c = (c \<in> set (''0123456789'' @ [CHR 0xB2, CHR 0xB3, CHR 0xB9]))"

text \<open>\<open>\w\<close>: the alphanumeric characters and the underscore.\<close>

definition is_word :: "char \<Rightarrow> bool" where
  "is_word c = (c \<in> set (''abcdefghijklmnopqrstuvwxyzABCDEFGHIJKLMNOPQRSTUVWXYZ0123456789_''
       @ [CHR 0xAA, CHR 0xB2, CHR 0xB3, CHR 0xB5, CHR 0xB9, CHR 0xBA, CHR 0xBC, CHR 0xBD, CHR 0xBE,
          CHR 0xDF, CHR 0xFF] @ latin1_upper @ latin1_lower))"

definition upper_char :: "char \<Rightarrow> char" where
  "upper_char c = (case map_of (zip lower_letters upper_letters) c of Some u \<Rightarrow> u | None \<Rightarrow> c)"

definition lower_char :: "char \<Rightarrow> char" where
  "lower_char c = (case map_of (zip upper_letters lower_letters) c of Some l \<Rightarrow> l | None \<Rightarrow> c)"

definition upper :: "string \<Rightarrow> string" where
  "upper s = map upper_char s"

definition lower :: "string \<Rightarrow> string" where
  "lower s = map lower_char s"

definition strip :: "string \<Rightarrow> string" where
  "strip s = rev (dropWhile isspace (rev (dropWhile isspace s)))"

fun startswith :: "string \<Rightarrow> string \<Rightarrow> bool" where
  "startswith s [] = True"
| "startswith [] (c # cs) = False"
| "startswith (x # xs) (c # cs) = (x = c \<and> startswith xs cs)"

text \<open>\<open>sub in s\<close> for two strings.\<close>

fun contains :: "string \<Rightarrow> string \<Rightarrow> bool" where
  "contains [] sub = (sub = [])"
| "contains (x # xs) sub = (startswith (x # xs) sub \<or> contains xs sub)"

text \<open>\<open>s.split()\<close>: the maximal runs of characters that are not white space.\<close>

fun split_ws_from :: "string \<Rightarrow> string \<Rightarrow> string list" where
  "split_ws_from cur [] = (if cur = [] then [] else [cur])"
| "split_ws_from cur (c # cs) =
     (if isspace c then (if cur = [] then split_ws_from [] cs else cur # split_ws_from [] cs)
      else split_ws_from (cur @ [c]) cs)"

definition split_ws :: "string \<Rightarrow> string list" where
  "split_ws s = split_ws_from [] s"

text \<open>\<open>s.split(sep)\<close>: cuts at the occurrences of \<open>sep\<close> found from left to right.\<close>

function split_from :: "string \<Rightarrow> string \<Rightarrow> string \<Rightarrow> string list" where
  "split_from sep cur [] = [cur]"
| "split_from sep cur (x # xs) =
     (if sep \<noteq> [] \<and> startswith (x # xs) sep
      then cur # split_from sep [] (drop (length sep) (x # xs))
      else split_from sep (cur @ [x]) xs)"
  by pat_completeness auto
termination
  by (relation "measure (\<lambda>(sep, cur, s). length s)") auto

definition py_split :: "string \<Rightarrow> string \<Rightarrow> py_error + string list" where
  "py_split s sep = (if sep = [] then Inl ValueError else Inr (split_from sep [] s))"

text \<open>\<open>xs[i]\<close> for an index that is not negative.\<close>

definition py_index :: "'a list \<Rightarrow> nat \<Rightarrow> py_error + 'a" where
  "py_index xs i = (if i < length xs then Inr (xs ! i) else Inl IndexError)"

fun join :: "string \<Rightarrow> string list \<Rightarrow> string" where
  "join sep [] = []"
| "join sep [w] = w"
| "join sep (w # v # ws) = w @ sep @ join sep (v # ws)"

text \<open>\<open>str(n)\<close> for an integer that is not negative.\<close>

definition digit_char :: "nat \<Rightarrow> char" where
  "digit_char d = ''0123456789'' ! d"

function str_nat :: "nat \<Rightarrow> string" where
  "str_nat n = (if n < 10 then [digit_char n] else str_nat (n div 10) @ [digit_char (n mod 10)])"
  by pat_completeness auto
termination
  by (relation "measure id") auto

definition py_max :: "int list \<Rightarrow> py_error + int" where
  "py_max xs = (case xs of [] \<Rightarrow> Inl ValueError | x # r \<Rightarrow> Inr (foldl max x r))"

definition py_min :: "int list \<Rightarrow> py_error + int" where
  "py_min xs = (case xs of [] \<Rightarrow> Inl ValueError | x # r \<Rightarrow> Inr (foldl min x r))"


section \<open>Regular expressions\<close>

text \<open>
  The patterns of the source are written as terms of \<open>regex\<close> and run by a backtracking
  matcher that returns every way a pattern can match at a position, in the order in which
  Python's \<open>re\<close> tries them (greedy repetition longest first, lazy repetition shortest first,
  the left alternative first). The head of that list is the match Python reports. A matcher
  state is the character before the position (None at the start of the text), the text
  from the position on, and the groups captured so far, the most recent first.
\<close>

datatype cset = Digit | Word | Space | Dot | OneOf string | NoneOf string | Union cset cset

fun in_cset :: "cset \<Rightarrow> char \<Rightarrow> bool" where
  "in_cset Digit c = is_decimal c"
| "in_cset Word c = is_word c"
| "in_cset Space c = isspace c"
| "in_cset Dot c = (c \<noteq> CHR 0x0A)"
| "in_cset (OneOf cs) c = (c \<in> set cs)"
| "in_cset (NoneOf cs) c = (c \<notin> set cs)"
| "in_cset (Union a b) c = (in_cset a c \<or> in_cset b c)"

datatype regex = Eps | Chr char | Cls cset | Cat regex regex | Alt regex regex
  | Opt regex | Star regex | StarLazy regex | Grp nat regex | Bol | Wb

type_synonym groups = "(nat \<times> string) list"
type_synonym mstate = "char option \<times> string \<times> groups"

definition rest :: "mstate \<Rightarrow> string" where
  "rest st = fst (snd st)"

definition word_boundary :: "char option \<Rightarrow> string \<Rightarrow> bool" where
  "word_boundary p s = ((case p of None \<Rightarrow> False | Some c \<Rightarrow> is_word c)
                         \<noteq> (case s of [] \<Rightarrow> False | c # _ \<Rightarrow> is_word c))"

function (sequential) matches :: "regex \<Rightarrow> mstate \<Rightarrow> mstate list" where
  "matches Eps st = [st]"
| "matches (Chr c) (p, s, g) =
     (case s of [] \<Rightarrow> [] | x # xs \<Rightarrow> if x = c then [(Some x, xs, g)] else [])"
| "matches (Cls k) (p, s, g) =
     (case s of [] \<Rightarrow> [] | x # xs \<Rightarrow> if in_cset k x then [(Some x, xs, g)] else [])"
| "matches (Cat a b) st = concat (map (matches b) (matches a st))"
| "matches (Alt a b) st = matches a st @ matches b st"
| "matches (Opt a) st = matches a st @ [st]"
| "matches (Star a) st =
     concat (map (\<lambda>st'. if length (rest st') < length (rest st) then matches (Star a) st' else [])
                 (matches a st)) @ [st]"
| "matches (StarLazy a) st =
     st # concat (map (\<lambda>st'. if length (rest st') < length (rest st)
                               then matches (StarLazy a) st' else [])
                      (matches a st))"
| "matches (Grp n a) (p, s, g) =
     map (\<lambda>(p', s', g'). (p', s', (n, take (length s - length s') s) # g')) (matches a (p, s, g))"
| "matches Bol (p, s, g) = (if p = None then [(p, s, g)] else [])"
| "matches Wb (p, s, g) = (if word_boundary p s then [(p, s, g)] else [])"
  by pat_completeness auto
termination
  by (relation "measures [\<lambda>(r, st). size r, \<lambda>(r, st). length (rest st)]") auto

definition Plus :: "regex \<Rightarrow> regex" where
  "Plus a = Cat a (Star a)"

definition PlusLazy :: "regex \<Rightarrow> regex" where
  "PlusLazy a = Cat a (StarLazy a)"

definition Seq :: "regex list \<Rightarrow> regex" where
  "Seq rs = foldr Cat rs Eps"

definition Str :: "string \<Rightarrow> regex" where
  "Str s = Seq (map Chr s)"

text \<open>
  The successive matches of a pattern in a text, as \<open>re.finditer\<close> finds them: the leftmost
  match, then the leftmost match after its end, and so on. Each is returned with the text it
  covers and its groups. No pattern of the source can match the empty string, so the rule
  \<open>re\<close> has for empty matches is not modelled: an empty match counts as no match.
\<close>

function re_scan :: "regex \<Rightarrow> char option \<Rightarrow> string \<Rightarrow> (string \<times> groups) list" where
  "re_scan r p [] = []"
| "re_scan r p (x # xs) =
     (case matches r (p, x # xs, []) of
        [] \<Rightarrow> re_scan r (Some x) xs
      | (p', s', g) # _ \<Rightarrow>
          if length s' < length (x # xs)
          then (take (length (x # xs) - length s') (x # xs), g) # re_scan r p' s'
          else re_scan r (Some x) xs)"
  by pat_completeness auto
termination
  by (relation "measure (\<lambda>(r, p, s). length s)") auto

text \<open>\<open>re.sub(r, repl, s)\<close> for a replacement text without group references.\<close>

function re_sub_from :: "regex \<Rightarrow> string \<Rightarrow> char option \<Rightarrow> string \<Rightarrow> string" where
  "re_sub_from r repl p [] = []"
| "re_sub_from r repl p (x # xs) =
     (case matches r (p, x # xs, []) of
        [] \<Rightarrow> x # re_sub_from r repl (Some x) xs
      | (p', s', g) # _ \<Rightarrow>
          if length s' < length (x # xs) then repl @ re_sub_from r repl p' s'
          else x # re_sub_from r repl (Some x) xs)"
  by pat_completeness auto
termination
  by (relation "measure (\<lambda>(r, repl, p, s). length s)") auto

definition re_sub :: "regex \<Rightarrow> string \<Rightarrow> string \<Rightarrow> string" where
  "re_sub r repl s = re_sub_from r repl None s"

text \<open>A group that took no part in the match reads as the empty string in \<open>re.findall\<close>.\<close>

definition group_text :: "groups \<Rightarrow> nat \<Rightarrow> string" where
  "group_text g n = (case map_of g n of None \<Rightarrow> [] | Some t \<Rightarrow> t)"

text \<open>\<open>re.findall\<close> for a pattern with one group, and for a pattern with none.\<close>

definition re_findall_group :: "regex \<Rightarrow> string \<Rightarrow> string list" where
  "re_findall_group r s = map (\<lambda>(m, g). group_text g 1) (re_scan r None s)"

definition re_findall :: "regex \<Rightarrow> string \<Rightarrow> string list" where
  "re_findall r s = map fst (re_scan r None s)"

text \<open>\<open>re.search\<close>: the groups of the first match, if there is one.\<close>

definition re_search :: "regex \<Rightarrow> string \<Rightarrow> groups option" where
  "re_search r s = (case re_scan r None s of [] \<Rightarrow> None | (m, g) # _ \<Rightarrow> Some g)"

text \<open>\<open>re.match\<close>: the groups of the match at the start of the text, if there is one.\<close>

definition re_match :: "regex \<Rightarrow> string \<Rightarrow> groups option" where
  "re_match r s = (case matches r (None, s, []) of [] \<Rightarrow> None | (p', s', g) # _ \<Rightarrow> Some g)"


section \<open>query\_analyzer.py\<close>

record Query =
  raw :: string
  normalized :: string
  query_type :: string
  tables :: "string list"
  has_where :: bool
  has_limit :: bool
  has_join :: bool
  selects_all :: bool
  param_count :: nat

record Issue =
  severity :: string
  category :: string
  message :: string
  queries :: "string list"
  suggestion :: string

subsection \<open>normalize\_query\<close>

text \<open>\<^verbatim>\<open>^Executing \([^)]+\):\s*\<close>\<close>

definition re_executing_prefix :: regex where
  "re_executing_prefix =
     Seq [Bol, Str ''Executing ('', Plus (Cls (NoneOf '')'')), Str ''):'', Star (Cls Space)]"

text \<open>\<^verbatim>\<open>^Query:\s*\<close>\<close>

definition re_query_prefix :: regex where
  "re_query_prefix = Seq [Bol, Str ''Query:'', Star (Cls Space)]"

text \<open>\<^verbatim>\<open>'(?:[^'\\]|\\.)*'\<close>\<close>

definition re_string_literal :: regex where
  "re_string_literal =
     Seq [Chr sq, Star (Alt (Cls (NoneOf [sq, bsl])) (Cat (Chr bsl) (Cls Dot))), Chr sq]"

text \<open>\<^verbatim>\<open>\b\d+(?:\.\d+)?\b\<close>\<close>

definition re_numeric_literal :: regex where
  "re_numeric_literal =
     Seq [Wb, Plus (Cls Digit), Opt (Cat (Chr (CHR ''.'')) (Plus (Cls Digit))), Wb]"

text \<open>\<^verbatim>\<open>IN\s*\([^)]+\)\<close> with \<open>re.IGNORECASE\<close>\<close>

definition re_in_list :: regex where
  "re_in_list =
     Seq [Cls (OneOf ''Ii''), Cls (OneOf ''Nn''), Star (Cls Space), Chr (CHR ''(''),
          Plus (Cls (NoneOf '')'')), Chr (CHR '')'')]"

text \<open>\<^verbatim>\<open>\$\d+\<close>, \<^verbatim>\<open>:\w+\<close>, \<^verbatim>\<open>%\(\w+\)s\<close> and \<^verbatim>\<open>%s\<close>\<close>

definition re_dollar_param :: regex where
  "re_dollar_param = Seq [Chr (CHR ''$''), Plus (Cls Digit)]"

definition re_named_param :: regex where
  "re_named_param = Seq [Chr (CHR '':''), Plus (Cls Word)]"

definition re_pyformat_param :: regex where
  "re_pyformat_param = Seq [Str ''%('', Plus (Cls Word), Str '')s'']"

definition re_format_param :: regex where
  "re_format_param = Str ''%s''"

definition normalize_query :: "string \<Rightarrow> string" where
  "normalize_query sql0 =
    (let sql = re_sub re_executing_prefix [] sql0;
         sql = re_sub re_query_prefix [] sql;
         sql = join '' '' (split_ws sql);
         sql = re_sub re_string_literal ([sq] @ ''?'' @ [sq]) sql;
         sql = re_sub re_numeric_literal ''?'' sql;
         sql = re_sub re_in_list ''IN (?)'' sql;
         sql = re_sub re_dollar_param ''?'' sql;
         sql = re_sub re_named_param ''?'' sql;
         sql = re_sub re_pyformat_param ''?'' sql;
         sql = re_sub re_format_param ''?'' sql
     in upper sql)"

subsection \<open>parse\_query\<close>

text \<open>\<^verbatim>\<open>(?:FROM|JOIN|INTO|UPDATE)\s+["\']?(\w+)["\']?\<close>\<close>

definition table_pattern :: regex where
  "table_pattern =
     Seq [Alt (Str ''FROM'') (Alt (Str ''JOIN'') (Alt (Str ''INTO'') (Str ''UPDATE''))),
          Plus (Cls Space), Opt (Cls (OneOf [dq, sq])), Grp 1 (Plus (Cls Word)),
          Opt (Cls (OneOf [dq, sq]))]"

text \<open>\<^verbatim>\<open>SELECT\s+\*\<close>\<close>

definition re_select_star :: regex where
  "re_select_star = Seq [Str ''SELECT'', Plus (Cls Space), Chr (CHR ''*'')]"

text \<open>\<^verbatim>\<open>\$\d+|\?|:\w+|%\(\w+\)s|%s\<close>\<close>

definition re_param :: regex where
  "re_param = Alt re_dollar_param (Alt (Chr (CHR ''?'')) (Alt re_named_param
                (Alt re_pyformat_param re_format_param)))"

text \<open>
  \<open>list(set(tables))\<close> keeps one copy of each name, in an order Python does not specify;
  \<open>remdups\<close> fixes one. The detectors only read the length of the list.
\<close>

definition parse_query :: "string \<Rightarrow> Query" where
  "parse_query sql =
    (let normalized = normalize_query sql;
         upper_sql = upper sql;
         query_type =
           (if startswith (strip upper_sql) ''SELECT'' then ''SELECT''
            else if startswith (strip upper_sql) ''INSERT'' then ''INSERT''
            else if startswith (strip upper_sql) ''UPDATE'' then ''UPDATE''
            else if startswith (strip upper_sql) ''DELETE'' then ''DELETE''
            else ''OTHER'');
         tables = remdups (re_findall_group table_pattern upper_sql);
         has_where = contains upper_sql ''WHERE'';
         has_limit = contains upper_sql ''LIMIT'';
         has_join = contains upper_sql ''JOIN'';
         selects_all = (re_search re_select_star upper_sql \<noteq> None);
         param_count = length (re_findall re_param sql)
     in \<lparr>raw = sql, normalized = normalized, query_type = query_type, tables = tables,
         has_where = has_where, has_limit = has_limit, has_join = has_join,
         selects_all = selects_all, param_count = param_count\<rparr>)"

subsection \<open>detect\_n\_plus\_one\<close>

text \<open>
  A \<open>defaultdict(list)\<close> keeps its keys in the order of their first insertion; it is an
  association list here, and \<open>dict_append d k v\<close> is \<open>d[k].append(v)\<close>.
\<close>

fun dict_append :: "('k \<times> 'v list) list \<Rightarrow> 'k \<Rightarrow> 'v \<Rightarrow> ('k \<times> 'v list) list" where
  "dict_append [] k v = [(k, [v])]"
| "dict_append ((k', vs) # d) k v =
     (if k' = k then (k', vs @ [v]) # d else (k', vs) # dict_append d k v)"

definition enumerate_py :: "'a list \<Rightarrow> (int \<times> 'a) list" where
  "enumerate_py xs = zip (map int [0..<length xs]) xs"

definition normalized_groups :: "Query list \<Rightarrow> (string \<times> (int \<times> Query) list) list" where
  "normalized_groups qs =
     foldl (\<lambda>d (i, q). dict_append d (normalized q) (i, q)) [] (enumerate_py qs)"

text \<open>The body of the loop over the groups: the issues it appends for one group.\<close>

definition n_plus_one_group :: "(int \<times> Query) list \<Rightarrow> py_error + Issue list" where
  "n_plus_one_group occurrences =
    (if length occurrences \<ge> 3 then
       (let indices = map fst occurrences in
        case py_max indices of Inl e \<Rightarrow> Inl e | Inr mx \<Rightarrow>
        case py_min indices of Inl e \<Rightarrow> Inl e | Inr mn \<Rightarrow>
          if mx - mn \<le> int (length occurrences) * 2 then
            Inr [\<lparr>severity = ''HIGH'', category = ''N+1 Query'',
                  message = ''Detected '' @ str_nat (length occurrences)
                            @ '' similar queries executed in sequence'',
                  queries = map (\<lambda>(i, q). raw q) (take 3 occurrences),
                  suggestion = ''Use eager loading (include/preload/prefetch_related) to fetch related data in one query''\<rparr>]
          else Inr [])
     else Inr [])"

fun n_plus_one_loop ::
  "Issue list \<Rightarrow> (string \<times> (int \<times> Query) list) list \<Rightarrow> py_error + Issue list" where
  "n_plus_one_loop issues [] = Inr issues"
| "n_plus_one_loop issues ((n, occurrences) # gs) =
     (case n_plus_one_group occurrences of
        Inl e \<Rightarrow> Inl e
      | Inr new \<Rightarrow> n_plus_one_loop (issues @ new) gs)"

text \<open>\<open>return issues if issues else None\<close>: the result is None when the list is empty.\<close>

definition detect_n_plus_one :: "Query list \<Rightarrow> py_error + Issue list option" where
  "detect_n_plus_one qs =
    (case n_plus_one_loop [] (normalized_groups qs) of
       Inl e \<Rightarrow> Inl e
     | Inr issues \<Rightarrow> Inr (if issues \<noteq> [] then Some issues else None))"

subsection \<open>detect\_missing\_where, detect\_select\_star, detect\_duplicate\_queries\<close>

definition missing_where_issue :: "Query \<Rightarrow> Issue" where
  "missing_where_issue q =
     \<lparr>severity = ''MEDIUM'', category = ''Missing WHERE'',
      message = ''SELECT query without WHERE clause may cause full table scan'',
      queries = [raw q],
      suggestion = ''Add WHERE clause or LIMIT to prevent scanning entire table''\<rparr>"

fun missing_where_loop :: "Issue list \<Rightarrow> Query list \<Rightarrow> Issue list" where
  "missing_where_loop issues [] = issues"
| "missing_where_loop issues (q # qs) =
     (if query_type q = ''SELECT'' \<and> \<not> has_where q \<and> \<not> has_limit q
      then missing_where_loop (issues @ [missing_where_issue q]) qs
      else missing_where_loop issues qs)"

definition detect_missing_where :: "Query list \<Rightarrow> Issue list" where
  "detect_missing_where qs = missing_where_loop [] qs"

definition detect_select_star :: "Query list \<Rightarrow> Issue list" where
  "detect_select_star qs =
    (let select_star_queries = filter (\<lambda>q. selects_all q \<and> query_type q = ''SELECT'') qs
     in if select_star_queries \<noteq> [] then
          [\<lparr>severity = ''LOW'', category = ''SELECT *'',
            message = ''Found '' @ str_nat (length select_star_queries) @ '' queries using SELECT *'',
            queries = map raw (take 3 select_star_queries),
            suggestion = ''Select only needed columns to reduce data transfer and memory usage''\<rparr>]
        else [])"

definition query_counts :: "Query list \<Rightarrow> (string \<times> Query list) list" where
  "query_counts qs = foldl (\<lambda>d q. dict_append d (raw q) q) [] qs"

fun duplicate_loop :: "Issue list \<Rightarrow> (string \<times> Query list) list \<Rightarrow> Issue list" where
  "duplicate_loop issues [] = issues"
| "duplicate_loop issues ((raw_query, occurrences) # gs) =
     (if length occurrences \<ge> 3
      then duplicate_loop
             (issues @ [\<lparr>severity = ''MEDIUM'', category = ''Duplicate Query'',
                          message = ''Identical query executed '' @ str_nat (length occurrences)
                                    @ '' times'',
                          queries = [raw_query],
                          suggestion = ''Consider caching the result or restructuring code to avoid repeated queries''\<rparr>])
             gs
      else duplicate_loop issues gs)"

definition detect_duplicate_queries :: "Query list \<Rightarrow> Issue list" where
  "detect_duplicate_queries qs = duplicate_loop [] (query_counts qs)"

subsection \<open>detect\_cartesian\_join\<close>

text \<open>
  The condition of the inner \<open>if\<close>. Python reads it as
  \<open>(not q.has_join and ',' in ...split('FROM')[1].split('WHERE')[0]) if 'FROM' in q.raw.upper()
  else False\<close>: the test for FROM comes first, and \<open>and\<close> evaluates its right operand only
  when the left one holds.
\<close>

definition cartesian_condition :: "Query \<Rightarrow> py_error + bool" where
  "cartesian_condition q =
    (if contains (upper (raw q)) ''FROM'' then
       (if \<not> has_join q then
          (case py_split (upper (raw q)) ''FROM'' of Inl e \<Rightarrow> Inl e | Inr parts \<Rightarrow>
           case py_index parts 1 of Inl e \<Rightarrow> Inl e | Inr after_from \<Rightarrow>
           case py_split after_from ''WHERE'' of Inl e \<Rightarrow> Inl e | Inr parts' \<Rightarrow>
           case py_index parts' 0 of Inl e \<Rightarrow> Inl e | Inr from_clause \<Rightarrow>
             Inr (CHR '','' \<in> set from_clause))
        else Inr False)
     else Inr False)"

definition cartesian_issue :: "Query \<Rightarrow> Issue" where
  "cartesian_issue q =
     \<lparr>severity = ''HIGH'', category = ''Cartesian Join'',
      message = ''Possible Cartesian join detected (comma-separated tables)'',
      queries = [raw q],
      suggestion = ''Use explicit JOIN with ON clause to specify relationship''\<rparr>"

fun cartesian_loop :: "Issue list \<Rightarrow> Query list \<Rightarrow> py_error + Issue list" where
  "cartesian_loop issues [] = Inr issues"
| "cartesian_loop issues (q # qs) =
     (if query_type q = ''SELECT'' \<and> length (tables q) > 1 then
        (case cartesian_condition q of
           Inl e \<Rightarrow> Inl e
         | Inr c \<Rightarrow> if c then cartesian_loop (issues @ [cartesian_issue q]) qs
                    else cartesian_loop issues qs)
      else cartesian_loop issues qs)"

definition detect_cartesian_join :: "Query list \<Rightarrow> py_error + Issue list" where
  "detect_cartesian_join qs = cartesian_loop [] qs"

subsection \<open>analyze\_queries\<close>

definition analyze_queries :: "Query list \<Rightarrow> py_error + Issue list" where
  "analyze_queries qs =
    (case detect_n_plus_one qs of Inl e \<Rightarrow> Inl e | Inr n_plus_one \<Rightarrow>
     let all_issues = (case n_plus_one of None \<Rightarrow> [] | Some found \<Rightarrow> found);
         all_issues = all_issues @ detect_missing_where qs;
         all_issues = all_issues @ detect_select_star qs;
         all_issues = all_issues @ detect_duplicate_queries qs
     in (case detect_cartesian_join qs of Inl e \<Rightarrow> Inl e | Inr found \<Rightarrow>
          Inr (all_issues @ found)))"

section \<open>Numbers\<close>

text \<open>
  A Python \<open>float\<close> is an IEEE 754 double: a finite value is modelled by the rational
  number it denotes (the sign of zero is not kept), next to the two infinities and NaN.
\<close>

datatype pyfloat = Finite rat | PosInf | NegInf | NaN

text \<open>\<open>x < y\<close> on floats; any comparison with NaN is false.\<close>

fun float_less :: "pyfloat \<Rightarrow> pyfloat \<Rightarrow> bool" where
  "float_less NaN y = False"
| "float_less x NaN = False"
| "float_less (Finite x) (Finite y) = (x < y)"
| "float_less x PosInf = (x \<noteq> PosInf)"
| "float_less PosInf y = False"
| "float_less NegInf y = (y \<noteq> NegInf)"
| "float_less x NegInf = False"

text \<open>The position of the leading bit of a positive integer.\<close>

function ilog2 :: "int \<Rightarrow> int" where
  "ilog2 n = (if n < 2 then 0 else 1 + ilog2 (n div 2))"
  by pat_completeness auto
termination
  by (relation "measure nat") auto

declare ilog2.simps [simp del]

text \<open>Rounding to the nearest integer, a tie going to the even one.\<close>

definition round_half_even :: "rat \<Rightarrow> int" where
  "round_half_even x =
     (let f = \<lfloor>x\<rfloor>; d = x - of_int f
      in if d < 1 / 2 then f else if 1 / 2 < d then f + 1 else if even f then f else f + 1)"

text \<open>
  The binary exponent \<open>e\<close> of the quotient of two positive integers:
  \<open>2 ^ e \<le> a / b < 2 ^ (e + 1)\<close>.
\<close>

definition binade :: "int \<Rightarrow> int \<Rightarrow> int" where
  "binade a b =
     (let e0 = ilog2 a - ilog2 b
      in if 2 powi e0 \<le> (of_int a / of_int b :: rat) then e0 else e0 - 1)"

text \<open>
  The double nearest to \<open>a / b\<close>, for \<open>a\<close> not negative and \<open>b\<close> positive: the quotient
  is rounded, ties to even, to a multiple of \<open>2 ^ (e - 52)\<close>, where \<open>e\<close> is its binary
  exponent, or -1022 for a quotient in the subnormal range. The result is None when the
  rounded value is \<open>2 ^ 1024\<close> or more, which no finite double holds.
\<close>

definition round_ratio :: "int \<Rightarrow> int \<Rightarrow> rat option" where
  "round_ratio a b =
     (if a = 0 then Some 0
      else let e = max (binade a b) (- 1022); u = 2 powi (e - 52);
               v = of_int (round_half_even (of_int a / of_int b / u)) * u
           in if 2 powi 1024 \<le> v then None else Some v)"

text \<open>
  \<open>a / b\<close> on two \<open>int\<close>s: the correctly rounded quotient, ZeroDivisionError for a zero
  divisor, and OverflowError (integer division result too large for a float) when the
  quotient is out of the range of doubles.
\<close>

definition true_div :: "int \<Rightarrow> int \<Rightarrow> py_error + pyfloat" where
  "true_div a b =
     (if b = 0 then Inl ZeroDivisionError
      else case round_ratio \<bar>a\<bar> \<bar>b\<bar> of
             None \<Rightarrow> Inl OverflowError
           | Some v \<Rightarrow> Inr (Finite (if (a < 0) \<noteq> (b < 0) then - v else v)))"

text \<open>The literal \<open>0.1\<close>: the double nearest to one tenth.\<close>

definition double_tenth :: rat where
  "double_tenth = 3602879701896397 / 36028797018963968"

text \<open>The value of a text of decimal digits.\<close>

definition digit_val :: "char \<Rightarrow> int" where
  "digit_val c = of_char c - 48"

definition int_of_digits :: "string \<Rightarrow> int" where
  "int_of_digits s = foldl (\<lambda>v c. 10 * v + digit_val c) 0 s"

text \<open>
  \<open>int(s)\<close>. A text of decimal digits converts to its value, unless it has more than 4300
  digits: CPython then raises ValueError (the default of \<open>sys.set_int_max_str_digits\<close>).
  A text with a character that is not a decimal digit raises ValueError, except that
  \<open>int\<close> also reads a sign, underscores between digits and surrounding white space; these
  spellings are not modelled, and the model says so with NotModelled. The parsers never
  hand such a text to \<open>int\<close>.
\<close>

definition py_int :: "string \<Rightarrow> py_error + int" where
  "py_int s =
     (if s \<noteq> [] \<and> list_all is_decimal s then
        (if 4300 < length s then Inl ValueError else Inr (int_of_digits s))
      else if list_ex (\<lambda>c. c \<in> set ''+-_'' \<or> isspace c) s then Inl NotModelled
      else Inl ValueError)"

text \<open>
  \<open>float(s)\<close> for a text of decimal digits and points: the double nearest to the decimal
  number, infinity when that is out of range, and ValueError unless the text has a digit
  and at most one point. The other spellings \<open>float\<close> reads (a sign, an exponent,
  underscores, white space, inf, nan) are not modelled; the parsers never hand one to
  \<open>float\<close>.
\<close>

definition float_of_decimal :: "string \<Rightarrow> string \<Rightarrow> pyfloat" where
  "float_of_decimal ip fp =
     (case round_ratio (int_of_digits (ip @ fp)) (10 ^ length fp) of
        None \<Rightarrow> PosInf
      | Some v \<Rightarrow> Finite v)"

definition py_float :: "string \<Rightarrow> py_error + pyfloat" where
  "py_float s =
     (if list_all (\<lambda>c. is_decimal c \<or> c = CHR ''.'') s then
        (let ip = takeWhile is_decimal s; r = dropWhile is_decimal s
         in case r of
              [] \<Rightarrow> if ip = [] then Inl ValueError else Inr (float_of_decimal ip [])
            | d # fp \<Rightarrow>
                if list_all is_decimal fp \<and> (ip \<noteq> [] \<or> fp \<noteq> [])
                then Inr (float_of_decimal ip fp) else Inl ValueError)
      else Inl NotModelled)"

text \<open>\<open>str(n)\<close> for an integer.\<close>

definition str_int :: "int \<Rightarrow> string" where
  "str_int n = (if n < 0 then CHR ''-'' # str_nat (nat (- n)) else str_nat (nat n))"

text \<open>\<open>s.isdigit()\<close>.\<close>

definition isdigit :: "string \<Rightarrow> bool" where
  "isdigit s = (s \<noteq> [] \<and> list_all isdigit_char s)"


section \<open>explain\_parser.py\<close>

text \<open>
  A value of no fixed type: what \<open>json.loads\<close> returns, and what a field of a plan node
  holds. A \<open>dict\<close> is the list of its items, in insertion order, with pairwise different
  keys.
\<close>

datatype pyval = PNone | PBool bool | PInt int | PFloat pyfloat | PStr string
  | PList "pyval list" | PDict "(string \<times> pyval) list"

text \<open>
  The two dataclasses. The field \<open>raw\<close> of ExplainNode is \<open>node_raw\<close> here, and the
  fields of ExplainIssue carry the prefix \<open>issue_\<close>, since \<open>Query\<close> and \<open>Issue\<close> have
  fields of these names.
\<close>

record ExplainNode =
  node_type :: pyval
  relation :: pyval
  cost :: pyval
  rows :: pyval
  actual_time :: pyval
  actual_rows :: pyval
  loops :: pyval
  children :: "pyval list"
  node_raw :: string
  warnings :: "pyval list"

record ExplainIssue =
  issue_severity :: string
  issue_node_type :: string
  issue_message :: string
  issue_suggestion :: string

definition newline :: char where "newline = CHR 0x0A"

text \<open>\<open>m.group(n)\<close>: None for a group that took no part in the match.\<close>

definition group :: "groups \<Rightarrow> nat \<Rightarrow> string option" where
  "group g n = map_of g n"

subsection \<open>parse\_postgres\_explain\<close>

text \<open>
  \<^verbatim>\<open>^[\s\->]*([\w\s]+?)(?:\s+on\s+([\w\.]+))?\s*\<close>
  \<^verbatim>\<open>\(cost=([\d.]+)\.\.([\d.]+)\s+rows=(\d+)\s+width=(\d+)\)\<close>
  \<^verbatim>\<open>(?:\s*\(actual time=([\d.]+)\.\.([\d.]+)\s+rows=(\d+)\s+loops=(\d+)\))?\<close>
\<close>

definition digits_points :: cset where
  "digits_points = Union Digit (OneOf ''.'')"

definition node_pattern :: regex where
  "node_pattern =
     Seq [Bol, Star (Cls (Union Space (OneOf ''->''))),
          Grp 1 (PlusLazy (Cls (Union Word Space))),
          Opt (Seq [Plus (Cls Space), Str ''on'', Plus (Cls Space),
                    Grp 2 (Plus (Cls (Union Word (OneOf ''.''))))]),
          Star (Cls Space),
          Str ''(cost='', Grp 3 (Plus (Cls digits_points)), Str ''..'',
          Grp 4 (Plus (Cls digits_points)), Plus (Cls Space),
          Str ''rows='', Grp 5 (Plus (Cls Digit)), Plus (Cls Space),
          Str ''width='', Grp 6 (Plus (Cls Digit)), Chr (CHR '')''),
          Opt (Seq [Star (Cls Space), Str ''(actual time='',
                    Grp 7 (Plus (Cls digits_points)), Str ''..'',
                    Grp 8 (Plus (Cls digits_points)), Plus (Cls Space),
                    Str ''rows='', Grp 9 (Plus (Cls Digit)), Plus (Cls Space),
                    Str ''loops='', Grp 10 (Plus (Cls Digit)), Chr (CHR '')'')])]"

text \<open>\<^verbatim>\<open>shared read=(\d+)\<close>\<close>

definition re_shared_read :: regex where
  "re_shared_read = Seq [Str ''shared read='', Grp 1 (Plus (Cls Digit))]"

text \<open>\<open>line.strip().startswith(('Planning', 'Execution', 'Total runtime'))\<close>\<close>

definition is_timing_line :: "string \<Rightarrow> bool" where
  "is_timing_line line =
     (startswith (strip line) ''Planning'' \<or> startswith (strip line) ''Execution''
      \<or> startswith (strip line) ''Total runtime'')"

text \<open>The three checks made on a node that was parsed, in the order of the source.\<close>

definition seq_scan_issues :: "string \<Rightarrow> string option \<Rightarrow> ExplainIssue list" where
  "seq_scan_issues ntype rel =
     (if contains ntype ''Seq Scan'' then
        [\<lparr>issue_severity = ''MEDIUM'', issue_node_type = ntype,
          issue_message = ''Sequential scan on ''
             @ (case rel of None \<Rightarrow> ''table'' | Some r \<Rightarrow> if r = [] then ''table'' else r),
          issue_suggestion = ''Consider adding an index on filtered/joined columns''\<rparr>]
      else [])"

definition row_estimate_issue :: "string \<Rightarrow> int \<Rightarrow> int \<Rightarrow> ExplainIssue" where
  "row_estimate_issue ntype estimated_rows act =
     \<lparr>issue_severity = ''MEDIUM'', issue_node_type = ntype,
      issue_message = ''Row estimate mismatch: estimated '' @ str_int estimated_rows
         @ '', actual '' @ str_int act,
      issue_suggestion = ''Run ANALYZE on the table to update statistics''\<rparr>"

definition row_estimate_issues ::
  "string \<Rightarrow> int \<Rightarrow> int option \<Rightarrow> py_error + ExplainIssue list" where
  "row_estimate_issues ntype estimated_rows act_rows =
     (case act_rows of
        None \<Rightarrow> Inr []
      | Some act \<Rightarrow>
          if 0 < estimated_rows then
            (case true_div act estimated_rows of
               Inl e \<Rightarrow> Inl e
             | Inr ratio \<Rightarrow>
                 Inr (if float_less (Finite 10) ratio \<or> float_less ratio (Finite double_tenth)
                      then [row_estimate_issue ntype estimated_rows act] else []))
          else Inr [])"

definition nested_loop_issues :: "string \<Rightarrow> int option \<Rightarrow> ExplainIssue list" where
  "nested_loop_issues ntype lps =
     (if contains ntype ''Nested Loop''
         \<and> (case lps of None \<Rightarrow> False | Some l \<Rightarrow> l \<noteq> 0 \<and> 100 < l) then
        [\<lparr>issue_severity = ''HIGH'', issue_node_type = ntype,
          issue_message = ''Nested loop with ''
             @ (case lps of None \<Rightarrow> ''None'' | Some l \<Rightarrow> str_int l) @ '' iterations'',
          issue_suggestion = ''Consider using a hash or merge join, or add an index''\<rparr>]
      else [])"

text \<open>
  The body of \<open>if node_match:\<close>: the conversions of the groups, in the order of the source
  (each may raise), then the node and its issues.
\<close>

definition postgres_node ::
  "string \<Rightarrow> groups \<Rightarrow> py_error + (ExplainNode \<times> ExplainIssue list)" where
  "postgres_node line g =
    (let ntype = strip (group_text g 1); rel = group g 2
     in case py_float (group_text g 3) of Inl e \<Rightarrow> Inl e | Inr startup_cost \<Rightarrow>
        case py_float (group_text g 4) of Inl e \<Rightarrow> Inl e | Inr total_cost \<Rightarrow>
        case py_int (group_text g 5) of Inl e \<Rightarrow> Inl e | Inr estimated_rows \<Rightarrow>
        case (if group_text g 7 \<noteq> [] then
                (case py_float (group_text g 8) of Inl e \<Rightarrow> Inl e | Inr t \<Rightarrow>
                 case py_int (group_text g 9) of Inl e \<Rightarrow> Inl e | Inr r \<Rightarrow>
                 case py_int (group_text g 10) of Inl e \<Rightarrow> Inl e | Inr l \<Rightarrow>
                   Inr (Some t, Some r, Some l))
              else Inr (None, None, None))
        of Inl e \<Rightarrow> Inl e | Inr (act_time, act_rows, lps) \<Rightarrow>
        case row_estimate_issues ntype estimated_rows act_rows of
          Inl e \<Rightarrow> Inl e
        | Inr ratio_issues \<Rightarrow>
            Inr (\<lparr>node_type = PStr ntype,
                  relation = (case rel of None \<Rightarrow> PNone | Some r \<Rightarrow> PStr r),
                  cost = PFloat total_cost,
                  rows = PInt estimated_rows,
                  actual_time = (case act_time of None \<Rightarrow> PNone | Some t \<Rightarrow> PFloat t),
                  actual_rows = (case act_rows of None \<Rightarrow> PNone | Some r \<Rightarrow> PInt r),
                  loops = (case lps of None \<Rightarrow> PNone | Some l \<Rightarrow> PInt l),
                  children = [], node_raw = line, warnings = []\<rparr>,
                 seq_scan_issues ntype rel @ ratio_issues @ nested_loop_issues ntype lps))"

text \<open>The two checks made on every line that is not a timing line.\<close>

definition sort_issues :: "string \<Rightarrow> ExplainIssue list" where
  "sort_issues line =
     (if contains line ''Sort Method: external'' then
        [\<lparr>issue_severity = ''HIGH'', issue_node_type = ''Sort'',
          issue_message = ''Sort spilling to disk'',
          issue_suggestion = ''Increase work_mem or optimize query to reduce sort size''\<rparr>]
      else [])"

definition buffer_issues :: "string \<Rightarrow> py_error + ExplainIssue list" where
  "buffer_issues line =
     (if contains line ''Buffers: shared read'' then
        (case re_search re_shared_read line of
           None \<Rightarrow> Inr []
         | Some g \<Rightarrow>
             (case py_int (group_text g 1) of
                Inl e \<Rightarrow> Inl e
              | Inr n \<Rightarrow>
                  Inr (if 10000 < n then
                         [\<lparr>issue_severity = ''LOW'', issue_node_type = ''Buffer'',
                           issue_message = ''High buffer reads: '' @ group_text g 1 @ '' pages'',
                           issue_suggestion =
                             ''Query may benefit from caching or index optimization''\<rparr>]
                       else [])))
      else Inr [])"

text \<open>One turn of the loop over the lines: the nodes and the issues it appends.\<close>

definition postgres_line :: "string \<Rightarrow> py_error + (ExplainNode list \<times> ExplainIssue list)" where
  "postgres_line line =
     (if is_timing_line line then Inr ([], [])
      else case (case re_match node_pattern line of
                   None \<Rightarrow> Inr ([], [])
                 | Some g \<Rightarrow>
                     (case postgres_node line g of
                        Inl e \<Rightarrow> Inl e
                      | Inr (node, found) \<Rightarrow> Inr ([node], found)))
           of Inl e \<Rightarrow> Inl e | Inr (nodes, found) \<Rightarrow>
           case buffer_issues line of
             Inl e \<Rightarrow> Inl e
           | Inr buffers \<Rightarrow> Inr (nodes, found @ sort_issues line @ buffers))"

fun parse_lines ::
  "(string \<Rightarrow> py_error + (ExplainNode list \<times> ExplainIssue list)) \<Rightarrow>
   ExplainNode list \<times> ExplainIssue list \<Rightarrow> string list \<Rightarrow>
   py_error + (ExplainNode list \<times> ExplainIssue list)" where
  "parse_lines f (nodes, issues) [] = Inr (nodes, issues)"
| "parse_lines f (nodes, issues) (line # lines) =
     (case f line of
        Inl e \<Rightarrow> Inl e
      | Inr (ns, found) \<Rightarrow> parse_lines f (nodes @ ns, issues @ found) lines)"

definition parse_postgres_explain ::
  "string \<Rightarrow> py_error + (ExplainNode list \<times> ExplainIssue list)" where
  "parse_postgres_explain text =
     parse_lines postgres_line ([], []) (split_from [newline] [] (strip text))"

subsection \<open>parse\_mysql\_explain, the tabular format\<close>

text \<open>
  \<open>parse_mysql_explain\<close> first hands the text to \<open>json.loads\<close>. When that raises
  JSONDecodeError, or returns a list, a string or a dict without the key \<open>query_block\<close>,
  the function goes on to read the text as a table. \<open>parse_mysql_tabular\<close> is that part
  of the function.
\<close>

text \<open>\<open>[p.strip() for p in line.split('|') if p.strip()]\<close>\<close>

definition mysql_cells :: "string \<Rightarrow> string list" where
  "mysql_cells line = filter (\<lambda>p. p \<noteq> []) (map strip (split_from ''|'' [] line))"

text \<open>\<open>'select_type' in line.lower() or line.startswith('+')\<close>\<close>

definition is_header_line :: "string \<Rightarrow> bool" where
  "is_header_line line = (contains (lower line) ''select_type'' \<or> startswith line ''+'')"

definition mysql_row_issues :: "string \<Rightarrow> string \<Rightarrow> string \<Rightarrow> ExplainIssue list" where
  "mysql_row_issues table access_type extra =
     (if access_type = ''ALL'' then
        [\<lparr>issue_severity = ''HIGH'', issue_node_type = ''Full Table Scan'',
          issue_message = ''Full table scan on '' @ table,
          issue_suggestion = ''Add an index on columns used in WHERE/JOIN''\<rparr>]
      else [])
     @ (if access_type = ''index'' then
        [\<lparr>issue_severity = ''MEDIUM'', issue_node_type = ''Full Index Scan'',
          issue_message = ''Full index scan on '' @ table,
          issue_suggestion = ''Query may not be using index efficiently''\<rparr>]
      else [])
     @ (if contains extra ''Using filesort'' then
        [\<lparr>issue_severity = ''MEDIUM'', issue_node_type = ''Filesort'',
          issue_message = ''Using filesort for ORDER BY'',
          issue_suggestion = ''Add index that matches ORDER BY columns''\<rparr>]
      else [])
     @ (if contains extra ''Using temporary'' then
        [\<lparr>issue_severity = ''MEDIUM'', issue_node_type = ''Temporary Table'',
          issue_message = ''Creating temporary table'',
          issue_suggestion = ''Optimize query to avoid temporary tables''\<rparr>]
      else [])"

definition mysql_line :: "string \<Rightarrow> py_error + (ExplainNode list \<times> ExplainIssue list)" where
  "mysql_line line =
     (if is_header_line line then Inr ([], [])
      else let parts = mysql_cells line
           in if 10 \<le> length parts then
                (let table = parts ! 2; access_type = parts ! 4;
                     extra = (if 11 < length parts then parts ! 11 else [])
                 in case (if isdigit (parts ! 9)
                          then (case py_int (parts ! 9) of Inl e \<Rightarrow> Inl e | Inr n \<Rightarrow> Inr (PInt n))
                          else Inr PNone)
                    of Inl e \<Rightarrow> Inl e
                     | Inr rws \<Rightarrow>
                         Inr ([\<lparr>node_type = PStr (if access_type = [] then ''UNKNOWN''
                                                      else access_type),
                                 relation = PStr table, cost = PNone, rows = rws,
                                 actual_time = PNone, actual_rows = PNone, loops = PNone,
                                 children = [], node_raw = line, warnings = []\<rparr>],
                              mysql_row_issues table access_type extra))
              else Inr ([], []))"

definition parse_mysql_tabular ::
  "string \<Rightarrow> py_error + (ExplainNode list \<times> ExplainIssue list)" where
  "parse_mysql_tabular text =
     parse_lines mysql_line ([], []) (split_from [newline] [] (strip text))"


section \<open>Specification of the repeated-statement burst detector\<close>

text \<open>
  The burst detector as the specification words it: the groups are the distinct normalized
  texts in order of first appearance, a group's occurrences are the indices of the queries
  with that normalized text, and a group qualifies when it has at least 3 occurrences whose
  index span is at most twice their number.
\<close>

definition first_seen :: "'a list \<Rightarrow> 'a list" where
  "first_seen xs = rev (remdups (rev xs))"

definition spec_occurrences :: "Query list \<Rightarrow> string \<Rightarrow> nat list" where
  "spec_occurrences qs n = filter (\<lambda>i. normalized (qs ! i) = n) [0..<length qs]"

definition spec_burst :: "Query list \<Rightarrow> string \<Rightarrow> bool" where
  "spec_burst qs n =
     (let occ = spec_occurrences qs n
      in 3 \<le> length occ \<and> int (last occ) - int (hd occ) \<le> 2 * int (length occ))"

definition spec_burst_issue :: "Query list \<Rightarrow> string \<Rightarrow> Issue" where
  "spec_burst_issue qs n =
     \<lparr>severity = ''HIGH'', category = ''N+1 Query'',
      message = ''Detected '' @ str_nat (length (spec_occurrences qs n))
                @ '' similar queries executed in sequence'',
      queries = map (\<lambda>i. raw (qs ! i)) (take 3 (spec_occurrences qs n)),
      suggestion = ''Use eager loading (include/preload/prefetch_related) to fetch related data in one query''\<rparr>"


text \<open>A parsed query with a given raw and normalized text, for concrete instances.\<close>

definition witness_query :: "string \<Rightarrow> string \<Rightarrow> Query" where
  "witness_query r n = \<lparr>raw = r, normalized = n, query_type = ''SELECT'', tables = [],
     has_where = True, has_limit = False, has_join = False, selects_all = True, param_count = 0\<rparr>"

text \<open>
  Queries whose normalized texts are pairwise different, and different from \<open>N\<close>.
\<close>

definition filler_query :: "nat \<Rightarrow> Query" where
  "filler_query i = witness_query ''SELECT 1'' (replicate (Suc i) CHR ''U'')"

section \<open>Specification of the lines of a MySQL table\<close>

text \<open>
  A line of the table that is a row: it is not a header line and has at least 10 cells
  that are not empty once trimmed.
\<close>

definition row_line :: "string \<Rightarrow> bool" where
  "row_line line = (\<not> is_header_line line \<and> 10 \<le> length (mysql_cells line))"

text \<open>
  A tenth cell that passes \<open>str.isdigit\<close> and that \<open>int\<close> refuses: it has a
  superscript digit, or more than 4300 digits.
\<close>

definition bad_row_count :: "string \<Rightarrow> bool" where
  "bad_row_count cell = (isdigit cell \<and> (\<not> list_all is_decimal cell \<or> 4300 < length cell))"

text \<open>Two rows of a table, the second with the superscript two as its row count.\<close>

definition good_row :: string where
  "good_row = ''| 1 | SIMPLE | users | NULL | ALL | NULL | NULL | NULL | NULL | 1000 | 100.00 | NULL |''"

definition bad_row :: string where
  "bad_row = ''| 1 | SIMPLE | users | NULL | ALL | NULL | NULL | NULL | NULL | '' @ [CHR 0xB2]
               @ '' | 100.00 | NULL |''"

section \<open>Properties of query\_analyzer.py\<close>

lemma first_seen_snoc:
  "first_seen (xs @ [x]) = (if x \<in> set xs then first_seen xs else first_seen xs @ [x])"
  by (simp add: first_seen_def)

lemma first_seen_set: "set (first_seen xs) = set xs"
  by (simp add: first_seen_def)

lemma first_seen_distinct: "distinct (first_seen xs)"
  by (simp add: first_seen_def)

lemma dict_append_map:
  "distinct ks \<Longrightarrow>
   dict_append (map (\<lambda>k. (k, g k)) ks) k0 v =
     (if k0 \<in> set ks then map (\<lambda>k. (k, if k = k0 then g k @ [v] else g k)) ks
      else map (\<lambda>k. (k, g k)) ks @ [(k0, [v])])"
  by (induction ks) auto

lemma group_by_foldl:
  "foldl (\<lambda>d x. dict_append d (f x) x) [] xs =
     map (\<lambda>k. (k, filter (\<lambda>x. f x = k) xs)) (first_seen (map f xs))"
proof (induction xs rule: rev_induct)
  case Nil
  show ?case by (simp add: first_seen_def)
next
  case (snoc x xs)
  show ?case
    by (auto simp add: snoc.IH dict_append_map [OF first_seen_distinct] first_seen_snoc
          first_seen_set filter_empty_conv image_iff)
qed

lemma enumerate_py_eq: "enumerate_py qs = map (\<lambda>i. (int i, qs ! i)) [0..<length qs]"
  by (rule nth_equalityI) (simp_all add: enumerate_py_def)

lemma normalized_groups_eq:
  "normalized_groups qs =
     map (\<lambda>n. (n, map (\<lambda>i. (int i, qs ! i)) (spec_occurrences qs n))) (first_seen (map normalized qs))"
proof -
  have step: "(\<lambda>d (i, q). dict_append d (normalized q) (i, q))
                = (\<lambda>d x. dict_append d ((normalized \<circ> snd) x) (x :: int \<times> Query))"
    by (simp add: fun_eq_iff split_def)
  have keys: "map (normalized \<circ> snd) (enumerate_py qs) = map normalized qs"
    by (rule nth_equalityI) (simp_all add: enumerate_py_eq)
  have occ: "filter (\<lambda>x. (normalized \<circ> snd) x = n) (enumerate_py qs)
               = map (\<lambda>i. (int i, qs ! i)) (spec_occurrences qs n)" for n
    by (simp add: enumerate_py_eq spec_occurrences_def filter_map comp_def)
  show ?thesis
    unfolding normalized_groups_def step group_by_foldl keys occ ..
qed

lemma foldl_max_sorted: "sorted (x # r) \<Longrightarrow> foldl max x r = last (x # (r :: int list))"
  by (induction r arbitrary: x) (auto simp: max_def)

lemma foldl_min_sorted: "sorted (x # r) \<Longrightarrow> foldl min x r = (x :: int)"
  by (induction r arbitrary: x) (auto simp: min_def)

lemma sorted_occurrences: "sorted (map int (spec_occurrences qs n))"
  by (simp add: spec_occurrences_def sorted_map sorted_wrt_filter)


lemma hd_map_int: "xs \<noteq> [] \<Longrightarrow> hd (map int xs) = int (hd xs)"
  by (cases xs) auto

lemma n_plus_one_group_occurrences:
  "n_plus_one_group (map (\<lambda>i. (int i, qs ! i)) (spec_occurrences qs n))
     = Inr (if spec_burst qs n then [spec_burst_issue qs n] else [])"
proof (cases "spec_occurrences qs n")
  case Nil
  then show ?thesis by (simp add: n_plus_one_group_def spec_burst_def)
next
  case (Cons i r)
  have srt: "sorted (int i # map int r)"
    using sorted_occurrences [of qs n] by (simp add: Cons)
  have mx: "py_max (map int (i # r)) = Inr (int (last (i # r)))"
    using foldl_max_sorted [OF srt] by (simp add: py_max_def last_map)
  have mn: "py_min (map int (i # r)) = Inr (int i)"
    using foldl_min_sorted [OF srt] by (simp add: py_min_def)
  have raws: "map ((\<lambda>(i, q). raw q) \<circ> (\<lambda>i. (int i, qs ! i))) xs = map (\<lambda>i. raw (qs ! i)) xs" for xs
    by simp
  show ?thesis
    unfolding n_plus_one_group_def spec_burst_def spec_burst_issue_def Let_def Cons
    using mx mn raws [of "take 3 (i # r)"]
    by (simp add: comp_def take_map [symmetric] del: take_map)
qed

lemma n_plus_one_loop_eq:
  "n_plus_one_loop acc
      (map (\<lambda>n. (n, map (\<lambda>i. (int i, qs ! i)) (spec_occurrences qs n))) ks)
     = Inr (acc @ map (spec_burst_issue qs) (filter (spec_burst qs) ks))"
  by (induction ks arbitrary: acc) (simp_all add: n_plus_one_group_occurrences)

lemma detect_n_plus_one_eq:
  "detect_n_plus_one qs =
     Inr (let found = map (spec_burst_issue qs)
                         (filter (spec_burst qs) (first_seen (map normalized qs)))
          in if found \<noteq> [] then Some found else None)"
  by (simp add: detect_n_plus_one_def normalized_groups_eq n_plus_one_loop_eq Let_def)

lemma missing_where_loop_eq:
  "missing_where_loop acc qs =
     acc @ map missing_where_issue
             (filter (\<lambda>q. query_type q = ''SELECT'' \<and> \<not> has_where q \<and> \<not> has_limit q) qs)"
  by (induction qs arbitrary: acc) simp_all

lemma split_from_nonempty: "split_from sep cur s \<noteq> []"
  by (induction sep cur s rule: split_from.induct) simp_all

lemma split_from_length:
  "sep \<noteq> [] \<Longrightarrow> contains s sep \<Longrightarrow> 2 \<le> length (split_from sep cur s)"
proof (induction sep cur s rule: split_from.induct)
  case (1 sep cur)
  then show ?case by simp
next
  case (2 sep cur x xs)
  show ?case
  proof (cases "startswith (x # xs) sep")
    case True
    have "1 \<le> length (split_from sep [] (drop (length sep) (x # xs)))"
      using split_from_nonempty [of sep "[]" "drop (length sep) (x # xs)"]
      by (cases "split_from sep [] (drop (length sep) (x # xs))") simp_all
    with True "2.prems" show ?thesis by simp
  next
    case False
    with "2.prems" have "contains xs sep" by simp
    with False "2.prems" "2.IH"(2) show ?thesis by simp
  qed
qed

lemma cartesian_condition_total: "\<exists>c. cartesian_condition q = Inr c"
proof -
  have a: "contains (upper (raw q)) ''FROM'' \<Longrightarrow> 1 < length (split_from ''FROM'' [] (upper (raw q)))"
    using split_from_length [of "''FROM''" "upper (raw q)" "[]"] by simp
  have b: "0 < length (split_from ''WHERE'' [] t)" for t
    using split_from_nonempty [of "''WHERE''" "[]" t] by simp
  show ?thesis
    using a b by (auto simp add: cartesian_condition_def py_split_def py_index_def)
qed

lemma cartesian_loop_total: "\<exists>r. cartesian_loop acc qs = Inr r"
proof (induction qs arbitrary: acc)
  case Nil
  show ?case by simp
next
  case (Cons q qs)
  obtain c where c: "cartesian_condition q = Inr c"
    using cartesian_condition_total by blast
  show ?case using Cons.IH by (simp add: c)
qed

lemma spec_occurrences_append:
  "spec_occurrences (xs @ ys) n =
     spec_occurrences xs n @ map (\<lambda>i. i + length xs) (spec_occurrences ys n)"
proof -
  have u1: "[0..<length xs + length ys] = [0..<length xs] @ [length xs..<length xs + length ys]"
    by (rule upt_add_eq_append) simp
  have u2: "[length xs..<length xs + length ys] = map (\<lambda>i. i + length xs) [0..<length ys]"
    by (simp only: map_add_upt add.commute [of "length ys" "length xs"])
  have l: "filter (\<lambda>i. normalized ((xs @ ys) ! i) = n) [0..<length xs]
            = filter (\<lambda>i. normalized (xs ! i) = n) [0..<length xs]"
    by (rule filter_cong) (simp_all add: nth_append)
  have r: "filter (\<lambda>i. normalized ((xs @ ys) ! i) = n) (map (\<lambda>i. i + length xs) [0..<length ys])
            = map (\<lambda>i. i + length xs) (filter (\<lambda>i. normalized (ys ! i) = n) [0..<length ys])"
    by (simp add: filter_map comp_def nth_append)
  have "spec_occurrences (xs @ ys) n
          = filter (\<lambda>i. normalized ((xs @ ys) ! i) = n) [0..<length xs + length ys]"
    by (simp add: spec_occurrences_def)
  also have "\<dots> = filter (\<lambda>i. normalized ((xs @ ys) ! i) = n) [0..<length xs]
                 @ filter (\<lambda>i. normalized ((xs @ ys) ! i) = n)
                     (map (\<lambda>i. i + length xs) [0..<length ys])"
    by (simp only: u1 u2 filter_append)
  also have "\<dots> = spec_occurrences xs n @ map (\<lambda>i. i + length xs) (spec_occurrences ys n)"
    by (simp only: l r spec_occurrences_def)
  finally show ?thesis .
qed

lemma spec_occurrences_single:
  "spec_occurrences [q] n = (if normalized q = n then [0] else [])"
  by (simp add: spec_occurrences_def)

lemma spec_occurrences_none:
  "\<forall>u \<in> set xs. normalized u \<noteq> n \<Longrightarrow> spec_occurrences xs n = []"
  by (simp add: spec_occurrences_def filter_empty_conv)

lemma spec_occurrences_Cons:
  "spec_occurrences (q # qs) n =
     (if normalized q = n then [0] else []) @ map Suc (spec_occurrences qs n)"
  using spec_occurrences_append [of "[q]" qs n] by (simp add: spec_occurrences_single)

lemma spec_occurrences_Nil: "spec_occurrences [] n = []"
  by (simp add: spec_occurrences_def)

lemma occ_skip:
  "\<forall>u \<in> set a. normalized u \<noteq> n \<Longrightarrow>
   spec_occurrences (a @ ys) n = map (\<lambda>i. i + length a) (spec_occurrences ys n)"
  by (simp add: spec_occurrences_append spec_occurrences_none)

lemma occ_hit:
  "normalized q = n \<Longrightarrow> spec_occurrences (q # ys) n = 0 # map Suc (spec_occurrences ys n)"
  by (simp add: spec_occurrences_Cons)

lemma spread_occurrences:
  assumes "\<forall>u \<in> set (a @ b @ c @ d). normalized u \<noteq> normalized q"
  shows "spec_occurrences (q # a @ q # b @ q # c @ q # d @ [q]) (normalized q)
           = [0, length a + 1, length a + length b + 2, length a + length b + length c + 3,
              length a + length b + length c + length d + 4]"
proof -
  let ?n = "normalized q"
  have na: "\<forall>u \<in> set a. normalized u \<noteq> ?n" and nb: "\<forall>u \<in> set b. normalized u \<noteq> ?n"
    and nc: "\<forall>u \<in> set c. normalized u \<noteq> ?n" and nd: "\<forall>u \<in> set d. normalized u \<noteq> ?n"
    using assms by auto
  have e1: "spec_occurrences (d @ [q]) ?n = [length d]"
    by (simp only: occ_skip [OF nd] spec_occurrences_single) simp
  have e2: "spec_occurrences (q # d @ [q]) ?n = [0, length d + 1]"
    by (simp only: occ_hit [OF refl] e1) simp
  have e3: "spec_occurrences (c @ q # d @ [q]) ?n = [length c, length c + length d + 1]"
    by (simp only: occ_skip [OF nc] e2) simp
  have e4: "spec_occurrences (q # c @ q # d @ [q]) ?n = [0, length c + 1, length c + length d + 2]"
    by (simp only: occ_hit [OF refl] e3) simp
  have e5: "spec_occurrences (b @ q # c @ q # d @ [q]) ?n
              = [length b, length b + length c + 1, length b + length c + length d + 2]"
    by (simp only: occ_skip [OF nb] e4) simp
  have e6: "spec_occurrences (q # b @ q # c @ q # d @ [q]) ?n
              = [0, length b + 1, length b + length c + 2, length b + length c + length d + 3]"
    by (simp only: occ_hit [OF refl] e5) simp
  have e7: "spec_occurrences (a @ q # b @ q # c @ q # d @ [q]) ?n
              = [length a, length a + length b + 1, length a + length b + length c + 2,
                 length a + length b + length c + length d + 3]"
    by (simp only: occ_skip [OF na] e6) simp
  show ?thesis
    by (simp only: occ_hit [OF refl] e7) simp
qed

lemma five_occurrences:
  assumes "normalized q2 = normalized q1" "normalized q3 = normalized q1"
          "normalized q4 = normalized q1" "normalized q5 = normalized q1"
  shows "spec_occurrences [q1, q2, q3, q4, q5] (normalized q1) = [0, 1, 2, 3, 4]"
  using assms by (simp add: spec_occurrences_Cons spec_occurrences_Nil)

lemma str_nat_5: "str_nat (Suc (Suc (Suc (Suc (Suc 0))))) = ''5''"
  by (simp add: digit_char_def)

lemma spec_occurrences_length:
  "length (spec_occurrences qs n) = length (filter (\<lambda>u. normalized u = n) qs)"
proof (induction qs rule: rev_induct)
  case Nil
  show ?case by (simp add: spec_occurrences_Nil)
next
  case (snoc x xs)
  show ?case by (simp add: spec_occurrences_append spec_occurrences_single snoc.IH)
qed

lemma distinct_map_filter_le_one:
  "distinct (map f xs) \<Longrightarrow> length (filter (\<lambda>u. f u = n) xs) \<le> Suc 0"
proof (induction xs)
  case Nil
  show ?case by simp
next
  case (Cons x xs)
  show ?case
  proof (cases "f x = n")
    case True
    with Cons.prems have "filter (\<lambda>u. f u = n) xs = []"
      by (auto simp add: filter_empty_conv image_iff)
    with True show ?thesis by simp
  next
    case False
    with Cons show ?thesis by simp
  qed
qed

lemma spread_no_issue:
  assumes len: "length (a @ b @ c @ d) = 500"
    and other: "\<forall>u \<in> set (a @ b @ c @ d). normalized u \<noteq> normalized q"
    and dist: "distinct (map normalized (a @ b @ c @ d))"
  shows "detect_n_plus_one (q # a @ q # b @ q # c @ q # d @ [q]) = Inr None"
proof -
  let ?qs = "q # a @ q # b @ q # c @ q # d @ [q]"
  have occ: "spec_occurrences ?qs (normalized q)
           = [0, length a + 1, length a + length b + 2, length a + length b + length c + 3,
              length a + length b + length c + length d + 4]"
    using other spread_occurrences by blast
  have nq: "\<not> spec_burst ?qs (normalized q)"
    using len by (simp add: spec_burst_def occ)
  have nu: "\<not> spec_burst ?qs (normalized u)" if u: "u \<in> set (a @ b @ c @ d)" for u
  proof -
    have ne: "normalized q \<noteq> normalized u" using other u by auto
    have "filter (\<lambda>v. normalized v = normalized u) ?qs
            = filter (\<lambda>v. normalized v = normalized u) (a @ b @ c @ d)"
      using ne by simp
    then have "length (spec_occurrences ?qs (normalized u)) \<le> Suc 0"
      using distinct_map_filter_le_one [OF dist, of "normalized u"]
      by (simp only: spec_occurrences_length)
    then show ?thesis by (simp add: spec_burst_def)
  qed
  have "filter (spec_burst ?qs) (first_seen (map normalized ?qs)) = []"
    using nq nu by (auto simp add: filter_empty_conv first_seen_set)
  then show ?thesis
    by (simp add: detect_n_plus_one_eq)
qed

lemma filler_normalized: "normalized (filler_query i) = replicate (Suc i) CHR ''U''"
  by (simp add: filler_query_def witness_query_def)

lemma filler_other: "\<forall>u \<in> set (map filler_query xs). normalized u \<noteq> ''N''"
  by (induction xs) (simp_all add: filler_normalized)

lemma filler_distinct: "distinct (map normalized (map filler_query [0..<500]))"
proof -
  have "inj_on (\<lambda>i. replicate (Suc i) CHR ''U'') {0..<500}"
    by (rule inj_onI) (metis length_replicate nat.inject)
  then show ?thesis
    by (simp add: distinct_map comp_def filler_normalized)
qed

lemma filler_split:
  "map filler_query [0..<125] @ map filler_query [125..<250]
     @ map filler_query [250..<375] @ map filler_query [375..<500] = map filler_query [0..<500]"
proof -
  have "[0..<375 + 125] = [0..<375] @ [375..<375 + 125::nat]"
       "[0..<250 + 125] = [0..<250] @ [250..<250 + 125::nat]"
       "[0..<125 + 125] = [0..<125] @ [125..<125 + 125::nat]"
    by (rule upt_add_eq_append, simp)+
  then have "[0..<125] @ [125..<250] @ [250..<375] @ [375..<500] = [0..<500::nat]"
    by (simp del: upt_Suc upt_rec_numeral)
  then show ?thesis by (metis map_append)
qed

subsection \<open>C1: the repeated-statement burst detector\<close>

text \<open>
  C1. For every sequence of parsed queries, \<open>detect_n_plus_one\<close> returns exactly one
  HIGH \<open>N+1 Query\<close> issue for each group of queries with the same normalized text
  that has at least 3 occurrences and whose index span (last occurrence index minus first
  occurrence index) is at most twice the group size, in order of first appearance of the
  groups, each citing the raw text of the group's first 3 occurrences (\<open>None\<close> stands
  for no issue). The groups are pairwise distinct and are exactly the normalized texts of
  the input. In particular, 5 consecutive queries with one normalized text give exactly one
  HIGH issue with 3 sample raw queries; and the same 5 occurrences spread across 500
  unrelated queries, that is, queries whose normalized texts differ from the repeated one
  and from one another, give no N+1 issue.
\<close>

theorem n_plus_one_burst_detector:
  "detect_n_plus_one qs =
     Inr (let found = map (spec_burst_issue qs)
                         (filter (spec_burst qs) (first_seen (map normalized qs)))
          in if found \<noteq> [] then Some found else None)
   \<and> distinct (first_seen (map normalized qs))
   \<and> set (first_seen (map normalized qs)) = normalized ` set qs
   \<and> (normalized q2 = normalized q1 \<and> normalized q3 = normalized q1 \<and>
      normalized q4 = normalized q1 \<and> normalized q5 = normalized q1 \<longrightarrow>
      detect_n_plus_one [q1, q2, q3, q4, q5] =
        Inr (Some [\<lparr>severity = ''HIGH'', category = ''N+1 Query'',
                     message = ''Detected 5 similar queries executed in sequence'',
                     queries = [raw q1, raw q2, raw q3],
                     suggestion = ''Use eager loading (include/preload/prefetch_related) to fetch related data in one query''\<rparr>]))
   \<and> (length (a @ b @ c @ d) = 500
        \<and> (\<forall>u \<in> set (a @ b @ c @ d). normalized u \<noteq> normalized q)
        \<and> distinct (map normalized (a @ b @ c @ d)) \<longrightarrow>
        detect_n_plus_one (q # a @ q # b @ q # c @ q # d @ [q]) = Inr None)"
proof (intro conjI impI)
  show "detect_n_plus_one qs =
     Inr (let found = map (spec_burst_issue qs)
                         (filter (spec_burst qs) (first_seen (map normalized qs)))
          in if found \<noteq> [] then Some found else None)"
    by (rule detect_n_plus_one_eq)
  show "distinct (first_seen (map normalized qs))"
    by (rule first_seen_distinct)
  show "set (first_seen (map normalized qs)) = normalized ` set qs"
    by (simp add: first_seen_set)
next
  assume h: "normalized q2 = normalized q1 \<and> normalized q3 = normalized q1 \<and>
      normalized q4 = normalized q1 \<and> normalized q5 = normalized q1"
  then have occ: "spec_occurrences [q1, q2, q3, q4, q5] (normalized q1) = [0, 1, 2, 3, 4]"
    by (simp add: five_occurrences)
  have keys: "first_seen (map normalized [q1, q2, q3, q4, q5]) = [normalized q1]"
    using h by (simp add: first_seen_def)
  show "detect_n_plus_one [q1, q2, q3, q4, q5] =
        Inr (Some [\<lparr>severity = ''HIGH'', category = ''N+1 Query'',
                     message = ''Detected 5 similar queries executed in sequence'',
                     queries = [raw q1, raw q2, raw q3],
                     suggestion = ''Use eager loading (include/preload/prefetch_related) to fetch related data in one query''\<rparr>])"
    unfolding detect_n_plus_one_eq keys
    by (simp add: spec_burst_def spec_burst_issue_def occ str_nat_5 del: str_nat.simps)
next
  assume "length (a @ b @ c @ d) = 500
        \<and> (\<forall>u \<in> set (a @ b @ c @ d). normalized u \<noteq> normalized q)
        \<and> distinct (map normalized (a @ b @ c @ d))"
  then show "detect_n_plus_one (q # a @ q # b @ q # c @ q # d @ [q]) = Inr None"
    using spread_no_issue by blast
qed

theorem n_plus_one_burst_detector_witness:
  "detect_n_plus_one [witness_query ''q1'' ''N'', witness_query ''q2'' ''N'',
                      witness_query ''q3'' ''N'', witness_query ''q4'' ''N'',
                      witness_query ''q5'' ''N''] =
        Inr (Some [\<lparr>severity = ''HIGH'', category = ''N+1 Query'',
                     message = ''Detected 5 similar queries executed in sequence'',
                     queries = [''q1'', ''q2'', ''q3''],
                     suggestion = ''Use eager loading (include/preload/prefetch_related) to fetch related data in one query''\<rparr>])
   \<and> detect_n_plus_one
       (witness_query ''q'' ''N'' # map filler_query [0..<125]
          @ witness_query ''q'' ''N'' # map filler_query [125..<250]
          @ witness_query ''q'' ''N'' # map filler_query [250..<375]
          @ witness_query ''q'' ''N'' # map filler_query [375..<500]
          @ [witness_query ''q'' ''N'']) = Inr None"
proof -
  have d: "distinct (map normalized (map filler_query [0..<125] @ map filler_query [125..<250]
     @ map filler_query [250..<375] @ map filler_query [375..<500]))"
    by (simp only: filler_split filler_distinct)
  have n: "\<forall>u \<in> set (map filler_query [0..<125] @ map filler_query [125..<250]
     @ map filler_query [250..<375] @ map filler_query [375..<500]).
       normalized u \<noteq> normalized (witness_query ''q'' ''N'')"
  proof -
    have w: "normalized (witness_query ''q'' ''N'') = ''N''"
      by (simp add: witness_query_def)
    show ?thesis
      using filler_other [of "[0..<125]"] filler_other [of "[125..<250]"]
            filler_other [of "[250..<375]"] filler_other [of "[375..<500]"]
      by (simp only: set_append ball_Un w)
  qed
  have l: "length (map filler_query [0..<125] @ map filler_query [125..<250]
     @ map filler_query [250..<375] @ map filler_query [375..<500]) = 500"
    by simp
  note T = n_plus_one_burst_detector [of "[]" "witness_query ''q2'' ''N''" "witness_query ''q1'' ''N''"
          "witness_query ''q3'' ''N''" "witness_query ''q4'' ''N''" "witness_query ''q5'' ''N''"
          "map filler_query [0..<125]" "map filler_query [125..<250]"
          "map filler_query [250..<375]" "map filler_query [375..<500]"
          "witness_query ''q'' ''N''"]
  have five: "detect_n_plus_one [witness_query ''q1'' ''N'', witness_query ''q2'' ''N'',
                      witness_query ''q3'' ''N'', witness_query ''q4'' ''N'',
                      witness_query ''q5'' ''N''] =
        Inr (Some [\<lparr>severity = ''HIGH'', category = ''N+1 Query'',
                     message = ''Detected 5 similar queries executed in sequence'',
                     queries = [''q1'', ''q2'', ''q3''],
                     suggestion = ''Use eager loading (include/preload/prefetch_related) to fetch related data in one query''\<rparr>])"
    using T [THEN conjunct2, THEN conjunct2, THEN conjunct2, THEN conjunct1]
    by (simp add: witness_query_def)
  have spread: "detect_n_plus_one
       (witness_query ''q'' ''N'' # map filler_query [0..<125]
          @ witness_query ''q'' ''N'' # map filler_query [125..<250]
          @ witness_query ''q'' ''N'' # map filler_query [250..<375]
          @ witness_query ''q'' ''N'' # map filler_query [375..<500]
          @ [witness_query ''q'' ''N'']) = Inr None"
    by (rule T [THEN conjunct2, THEN conjunct2, THEN conjunct2, THEN conjunct2, THEN mp])
       (rule conjI [OF l conjI [OF n d]])
  show ?thesis
    using five spread by (rule conjI)
qed

lemma parse_query_fields:
  "raw (parse_query s) = s"
  "query_type (parse_query s) =
     (if startswith (strip (upper s)) ''SELECT'' then ''SELECT''
      else if startswith (strip (upper s)) ''INSERT'' then ''INSERT''
      else if startswith (strip (upper s)) ''UPDATE'' then ''UPDATE''
      else if startswith (strip (upper s)) ''DELETE'' then ''DELETE''
      else ''OTHER'')"
  "has_where (parse_query s) = contains (upper s) ''WHERE''"
  "has_limit (parse_query s) = contains (upper s) ''LIMIT''"
  "has_join (parse_query s) = contains (upper s) ''JOIN''"
  "tables (parse_query s) = remdups (re_findall_group table_pattern (upper s))"
  "normalized (parse_query s) = normalize_query s"
  by (simp_all add: parse_query_def Let_def)

lemma detect_n_plus_one_total: "\<exists>r. detect_n_plus_one qs = Inr r"
  by (simp add: detect_n_plus_one_eq)

lemma detect_cartesian_join_total: "\<exists>r. detect_cartesian_join qs = Inr r"
  by (simp add: detect_cartesian_join_def cartesian_loop_total)

lemma analyze_queries_total: "\<exists>r. analyze_queries qs = Inr r"
proof -
  obtain a where a: "detect_n_plus_one qs = Inr a" using detect_n_plus_one_total by blast
  obtain b where b: "detect_cartesian_join qs = Inr b" using detect_cartesian_join_total by blast
  show ?thesis by (simp add: analyze_queries_def a b Let_def)
qed

lemma ex_upper_users: "upper ''SELECT * FROM users'' = ''SELECT * FROM USERS''"
  by code_simp
lemma ex_upper_limit: "upper ''SELECT * FROM users LIMIT 10'' = ''SELECT * FROM USERS LIMIT 10''"
  by code_simp
lemma ex_upper_where:
  "upper ''SELECT * FROM users WHERE active = true'' = ''SELECT * FROM USERS WHERE ACTIVE = TRUE''"
  by code_simp

subsection \<open>C7: the missing-filter detector\<close>

text \<open>
  C7. For every sequence of parsed queries, \<open>detect_missing_where\<close> returns, in order,
  one issue per query whose type is SELECT and that has neither a WHERE nor a LIMIT clause,
  and nothing for any other query; each such issue is MEDIUM, of category
  \<open>Missing WHERE\<close>, and cites the raw text of its query. In particular, after
  \<open>parse_query\<close>, \<open>SELECT * FROM users\<close> yields one issue,
  \<open>SELECT * FROM users LIMIT 10\<close> yields none, and
  \<open>SELECT * FROM users WHERE active = true\<close> yields none.
\<close>

theorem missing_filter_detector:
  "detect_missing_where qs =
     map missing_where_issue
         (filter (\<lambda>q. query_type q = ''SELECT'' \<and> \<not> has_where q \<and> \<not> has_limit q) qs)
   \<and> severity (missing_where_issue q) = ''MEDIUM''
   \<and> category (missing_where_issue q) = ''Missing WHERE''
   \<and> queries (missing_where_issue q) = [raw q]
   \<and> detect_missing_where [parse_query ''SELECT * FROM users'']
        = [missing_where_issue (parse_query ''SELECT * FROM users'')]
   \<and> detect_missing_where [parse_query ''SELECT * FROM users LIMIT 10''] = []
   \<and> detect_missing_where [parse_query ''SELECT * FROM users WHERE active = true''] = []"
proof (intro conjI)
  show "detect_missing_where qs =
     map missing_where_issue
         (filter (\<lambda>q. query_type q = ''SELECT'' \<and> \<not> has_where q \<and> \<not> has_limit q) qs)"
    by (simp add: detect_missing_where_def missing_where_loop_eq)
  show "severity (missing_where_issue q) = ''MEDIUM''"
    "category (missing_where_issue q) = ''Missing WHERE''"
    "queries (missing_where_issue q) = [raw q]"
    by (simp_all add: missing_where_issue_def)
  show "detect_missing_where [parse_query ''SELECT * FROM users'']
        = [missing_where_issue (parse_query ''SELECT * FROM users'')]"
    by (simp add: detect_missing_where_def parse_query_fields ex_upper_users strip_def isspace_def)
  show "detect_missing_where [parse_query ''SELECT * FROM users LIMIT 10''] = []"
    by (simp add: detect_missing_where_def parse_query_fields ex_upper_limit strip_def isspace_def)
  show "detect_missing_where [parse_query ''SELECT * FROM users WHERE active = true''] = []"
    by (simp add: detect_missing_where_def parse_query_fields ex_upper_where strip_def isspace_def)
qed

theorem missing_filter_detector_witness:
  "detect_missing_where [witness_query ''SELECT * FROM users'' ''N''\<lparr>has_where := False\<rparr>,
                         witness_query ''SELECT * FROM t WHERE a = 1'' ''M'']
     = [missing_where_issue (witness_query ''SELECT * FROM users'' ''N''\<lparr>has_where := False\<rparr>)]"
  using missing_filter_detector
          [of "[witness_query ''SELECT * FROM users'' ''N''\<lparr>has_where := False\<rparr>,
                witness_query ''SELECT * FROM t WHERE a = 1'' ''M'']"]
  by (simp add: witness_query_def)

subsection \<open>C9: the detectors are total\<close>

text \<open>
  C9. No detector raises on any sequence of parsed queries: \<open>detect_missing_where\<close>,
  \<open>detect_select_star\<close> and \<open>detect_duplicate_queries\<close> have no failing
  operation (their models are plain lists), and the detectors whose bodies index a list or
  take a maximum, \<open>detect_n_plus_one\<close> and \<open>detect_cartesian_join\<close>, and
  with them \<open>analyze_queries\<close>, always return a value. In particular the indexing
  of the Cartesian-join condition into the pieces of the raw text split on FROM and on
  WHERE never fails, and a query whose raw text has no FROM makes the condition false.
\<close>

theorem detectors_total:
  "(\<exists>r. detect_n_plus_one qs = Inr r)
   \<and> (\<exists>r. detect_cartesian_join qs = Inr r)
   \<and> (\<exists>r. analyze_queries qs = Inr r)
   \<and> (\<exists>c. cartesian_condition q = Inr c)
   \<and> (\<not> contains (upper (raw q)) ''FROM'' \<longrightarrow> cartesian_condition q = Inr False)"
  using detect_n_plus_one_total detect_cartesian_join_total analyze_queries_total
        cartesian_condition_total
  by (simp add: cartesian_condition_def)

theorem detectors_total_witness:
  "(\<exists>r. detect_cartesian_join [witness_query ''SELECT 1, 2'' ''N''\<lparr>tables := [''A'', ''B'']\<rparr>] = Inr r)
   \<and> cartesian_condition (witness_query ''SELECT 1, 2'' ''N'') = Inr False"
proof -
  have nf: "\<not> contains (upper (raw (witness_query ''SELECT 1, 2'' ''N''))) ''FROM''"
    by (simp add: witness_query_def) code_simp
  show ?thesis
    using nf detectors_total [of "[witness_query ''SELECT 1, 2'' ''N''\<lparr>tables := [''A'', ''B'']\<rparr>]"
                                  "witness_query ''SELECT 1, 2'' ''N''"]
    by blast
qed

subsection \<open>C4: the detector contract\<close>

text \<open>
  C4, as stated, fails for the N+1 detector: on the empty sequence (no qualifying group)
  \<open>detect_n_plus_one\<close> returns \<open>None\<close>, not an empty sequence of issues, as
  its return annotation \<open>Optional\<close> announces.
\<close>

theorem n_plus_one_returns_none_counterexample:
  "detect_n_plus_one [] = Inr None \<and> \<not> (\<exists>issues. detect_n_plus_one [] = Inr (Some issues))"
  by (simp add: detect_n_plus_one_def normalized_groups_def enumerate_py_def)

text \<open>
  C4, amended. On every sequence of parsed queries the N+1 detector returns either
  \<open>None\<close> or a non-empty sequence of issues, never an empty sequence, and it returns
  \<open>None\<close> exactly when no group of the input qualifies; the Cartesian-join detector
  and \<open>analyze_queries\<close> return a sequence of issues; \<open>analyze_queries\<close> treats
  \<open>None\<close> as no issues: its result is the issues of the N+1 detector, if any, followed
  by those of the four other detectors in order; \<open>detect_missing_where\<close>,
  \<open>detect_select_star\<close> and \<open>detect_duplicate_queries\<close> return a sequence
  of issues by their type; and on the empty sequence all of these return the empty
  sequence.
\<close>

theorem detector_contract_amended:
  "(\<exists>r. detect_n_plus_one qs = Inr r \<and> r \<noteq> Some [])
   \<and> (detect_n_plus_one qs = Inr None \<longleftrightarrow> \<not> (\<exists>n \<in> normalized ` set qs. spec_burst qs n))
   \<and> (\<exists>issues. detect_cartesian_join qs = Inr issues)
   \<and> (\<exists>issues. analyze_queries qs = Inr issues)
   \<and> (detect_n_plus_one qs = Inr None \<longrightarrow>
        (\<exists>c. detect_cartesian_join qs = Inr c \<and>
             analyze_queries qs = Inr (detect_missing_where qs @ detect_select_star qs
                                        @ detect_duplicate_queries qs @ c)))
   \<and> (\<forall>found. detect_n_plus_one qs = Inr (Some found) \<longrightarrow>
        (\<exists>c. detect_cartesian_join qs = Inr c \<and>
             analyze_queries qs = Inr (found @ detect_missing_where qs @ detect_select_star qs
                                        @ detect_duplicate_queries qs @ c)))
   \<and> detect_missing_where [] = [] \<and> detect_select_star [] = []
   \<and> detect_duplicate_queries [] = [] \<and> detect_cartesian_join [] = Inr []
   \<and> analyze_queries [] = Inr []"
proof (intro conjI)
  obtain c where c: "detect_cartesian_join qs = Inr c"
    using detect_cartesian_join_total by blast
  show "\<exists>r. detect_n_plus_one qs = Inr r \<and> r \<noteq> Some []"
    by (simp add: detect_n_plus_one_eq Let_def)
  show "detect_n_plus_one qs = Inr None \<longleftrightarrow> \<not> (\<exists>n \<in> normalized ` set qs. spec_burst qs n)"
    by (auto simp add: detect_n_plus_one_eq Let_def filter_empty_conv first_seen_set)
  show "\<exists>issues. detect_cartesian_join qs = Inr issues"
    by (rule detect_cartesian_join_total)
  show "\<exists>issues. analyze_queries qs = Inr issues"
    by (rule analyze_queries_total)
  show "detect_n_plus_one qs = Inr None \<longrightarrow>
        (\<exists>c. detect_cartesian_join qs = Inr c \<and>
             analyze_queries qs = Inr (detect_missing_where qs @ detect_select_star qs
                                        @ detect_duplicate_queries qs @ c))"
    by (simp add: analyze_queries_def c Let_def)
  show "\<forall>found. detect_n_plus_one qs = Inr (Some found) \<longrightarrow>
        (\<exists>c. detect_cartesian_join qs = Inr c \<and>
             analyze_queries qs = Inr (found @ detect_missing_where qs @ detect_select_star qs
                                        @ detect_duplicate_queries qs @ c))"
    by (simp add: analyze_queries_def c Let_def)
  show "detect_missing_where [] = []" by (simp add: detect_missing_where_def)
  show "detect_select_star [] = []" by (simp add: detect_select_star_def)
  show "detect_duplicate_queries [] = []"
    by (simp add: detect_duplicate_queries_def query_counts_def)
  show "detect_cartesian_join [] = Inr []" by (simp add: detect_cartesian_join_def)
  show "analyze_queries [] = Inr []"
    by (simp add: analyze_queries_def detect_n_plus_one_def normalized_groups_def enumerate_py_def
          detect_missing_where_def detect_select_star_def detect_duplicate_queries_def
          query_counts_def detect_cartesian_join_def)
qed

theorem detector_contract_amended_witness:
  "detect_n_plus_one [witness_query ''q1'' ''N''] = Inr None
   \<and> analyze_queries [witness_query ''q1'' ''N'']
       = Inr [\<lparr>severity = ''LOW'', category = ''SELECT *'',
               message = ''Found 1 queries using SELECT *'', queries = [''q1''],
               suggestion = ''Select only needed columns to reduce data transfer and memory usage''\<rparr>]"
proof -
  have nb: "\<not> (\<exists>n \<in> normalized ` set [witness_query ''q1'' ''N'']. spec_burst [witness_query ''q1'' ''N''] n)"
    by (simp add: spec_burst_def spec_occurrences_def witness_query_def)
  have c: "detect_cartesian_join [witness_query ''q1'' ''N''] = Inr []"
    by (simp add: detect_cartesian_join_def witness_query_def)
  have m: "detect_missing_where [witness_query ''q1'' ''N''] = []"
    by (simp add: detect_missing_where_def witness_query_def)
  have d: "detect_duplicate_queries [witness_query ''q1'' ''N''] = []"
    by (simp add: detect_duplicate_queries_def query_counts_def witness_query_def)
  have s: "detect_select_star [witness_query ''q1'' ''N'']
       = [\<lparr>severity = ''LOW'', category = ''SELECT *'',
               message = ''Found 1 queries using SELECT *'', queries = [''q1''],
               suggestion = ''Select only needed columns to reduce data transfer and memory usage''\<rparr>]"
    by (simp add: detect_select_star_def witness_query_def Let_def digit_char_def)
  show ?thesis
    using detector_contract_amended [of "[witness_query ''q1'' ''N'']"] nb c m d s
    by auto
qed

subsection \<open>C2: the implicit-cross-join detector\<close>

lemma cartesian_loop_eq:
  "cartesian_loop acc qs =
     Inr (acc @ map cartesian_issue
                  (filter (\<lambda>q. query_type q = ''SELECT'' \<and> 1 < length (tables q)
                                \<and> cartesian_condition q = Inr True) qs))"
proof (induction qs arbitrary: acc)
  case Nil
  show ?case by simp
next
  case (Cons q qs)
  obtain c where c: "cartesian_condition q = Inr c"
    using cartesian_condition_total by blast
  show ?case by (simp add: c Cons.IH)
qed

lemma comma_join_fields:
  "query_type (parse_query ''SELECT * FROM a, b WHERE a.id = b.a_id'') = ''SELECT''"
  "tables (parse_query ''SELECT * FROM a, b WHERE a.id = b.a_id'') = [''A'']"
  "has_join (parse_query ''SELECT * FROM a, b WHERE a.id = b.a_id'') = False"
  "cartesian_condition (parse_query ''SELECT * FROM a, b WHERE a.id = b.a_id'') = Inr True"
  unfolding parse_query_fields cartesian_condition_def by code_simp+

lemma explicit_join_fields:
  "tables (parse_query ''SELECT * FROM a JOIN b ON a.id = b.a_id'') = [''A'', ''B'']"
  "has_join (parse_query ''SELECT * FROM a JOIN b ON a.id = b.a_id'') = True"
  "cartesian_condition (parse_query ''SELECT * FROM a JOIN b ON a.id = b.a_id'') = Inr False"
  unfolding parse_query_fields cartesian_condition_def by code_simp+

lemma nested_comma_join_fields:
  "query_type (parse_query ''SELECT * FROM a, b WHERE a.id IN (SELECT a_id FROM c)'') = ''SELECT''"
  "tables (parse_query ''SELECT * FROM a, b WHERE a.id IN (SELECT a_id FROM c)'') = [''A'', ''C'']"
  "cartesian_condition (parse_query ''SELECT * FROM a, b WHERE a.id IN (SELECT a_id FROM c)'')
     = Inr True"
  unfolding parse_query_fields cartesian_condition_def by code_simp+


text \<open>
  C2. On parsed queries the detector does what the claim says: it returns one HIGH
  \<open>Cartesian Join\<close> issue, citing the raw text, for each SELECT query with more than
  one table, no JOIN keyword and a comma between FROM and WHERE. But the claim's first
  example fails: for \<open>SELECT * FROM a, b WHERE a.id = b.a_id\<close> the table pattern of
  \<open>parse_query\<close> captures only the first name after FROM, so the parsed query has the
  single table \<open>A\<close>, the detector's test for more than one table fails, and no issue is
  returned, although the query is a SELECT without JOIN whose FROM clause has a comma. The
  second example, with an explicit JOIN, yields no issue, as claimed.
\<close>

theorem cartesian_join_misses_comma_join:
  "detect_cartesian_join qs =
     Inr (map cartesian_issue
            (filter (\<lambda>q. query_type q = ''SELECT'' \<and> 1 < length (tables q)
                          \<and> cartesian_condition q = Inr True) qs))
   \<and> severity (cartesian_issue q) = ''HIGH''
   \<and> category (cartesian_issue q) = ''Cartesian Join''
   \<and> queries (cartesian_issue q) = [raw q]
   \<and> query_type (parse_query ''SELECT * FROM a, b WHERE a.id = b.a_id'') = ''SELECT''
   \<and> \<not> has_join (parse_query ''SELECT * FROM a, b WHERE a.id = b.a_id'')
   \<and> cartesian_condition (parse_query ''SELECT * FROM a, b WHERE a.id = b.a_id'') = Inr True
   \<and> tables (parse_query ''SELECT * FROM a, b WHERE a.id = b.a_id'') = [''A'']
   \<and> detect_cartesian_join [parse_query ''SELECT * FROM a, b WHERE a.id = b.a_id''] = Inr []
   \<and> detect_cartesian_join [parse_query ''SELECT * FROM a JOIN b ON a.id = b.a_id''] = Inr []"
proof (intro conjI)
  show g: "detect_cartesian_join qs =
     Inr (map cartesian_issue
            (filter (\<lambda>q. query_type q = ''SELECT'' \<and> 1 < length (tables q)
                          \<and> cartesian_condition q = Inr True) qs))" for qs
    by (simp add: detect_cartesian_join_def cartesian_loop_eq)
  show "severity (cartesian_issue q) = ''HIGH''"
    "category (cartesian_issue q) = ''Cartesian Join''"
    "queries (cartesian_issue q) = [raw q]"
    by (simp_all add: cartesian_issue_def)
  show "query_type (parse_query ''SELECT * FROM a, b WHERE a.id = b.a_id'') = ''SELECT''"
    "\<not> has_join (parse_query ''SELECT * FROM a, b WHERE a.id = b.a_id'')"
    "cartesian_condition (parse_query ''SELECT * FROM a, b WHERE a.id = b.a_id'') = Inr True"
    "tables (parse_query ''SELECT * FROM a, b WHERE a.id = b.a_id'') = [''A'']"
    by (simp_all only: comma_join_fields not_False_eq_True)
  show "detect_cartesian_join [parse_query ''SELECT * FROM a, b WHERE a.id = b.a_id''] = Inr []"
    by (simp add: g comma_join_fields)
  show "detect_cartesian_join [parse_query ''SELECT * FROM a JOIN b ON a.id = b.a_id''] = Inr []"
    by (simp add: g explicit_join_fields)
qed

theorem cartesian_join_misses_comma_join_witness:
  "detect_cartesian_join [parse_query ''SELECT * FROM a, b WHERE a.id IN (SELECT a_id FROM c)'']
     = Inr [cartesian_issue
              (parse_query ''SELECT * FROM a, b WHERE a.id IN (SELECT a_id FROM c)'')]"
  using cartesian_join_misses_comma_join
          [of "[parse_query ''SELECT * FROM a, b WHERE a.id IN (SELECT a_id FROM c)'']"]
  by (simp add: nested_comma_join_fields)

section \<open>Properties of explain\_parser.py\<close>

subsection \<open>C10: the lines of the MySQL table\<close>

lemma isdigit_char_not_sign: "isdigit_char c \<Longrightarrow> c \<notin> set ''+-_'' \<and> \<not> isspace c"
  by (auto simp add: isdigit_char_def isspace_def)

lemma py_int_isdigit:
  "isdigit cell \<Longrightarrow>
   py_int cell = (if list_all is_decimal cell \<and> length cell \<le> 4300
                  then Inr (int_of_digits cell) else Inl ValueError)"
proof -
  assume d: "isdigit cell"
  then have "\<not> list_ex (\<lambda>c. c \<in> set ''+-_'' \<or> isspace c) cell"
    using isdigit_char_not_sign by (auto simp add: isdigit_def list_ex_iff list_all_iff)
  with d show ?thesis
    by (auto simp add: py_int_def isdigit_def)
qed

lemma mysql_line_skip:
  "\<not> row_line line \<Longrightarrow> mysql_line line = Inr ([], [])"
  by (auto simp add: row_line_def mysql_line_def Let_def)

lemma mysql_line_bad:
  "row_line line \<Longrightarrow> bad_row_count (mysql_cells line ! 9) \<Longrightarrow> mysql_line line = Inl ValueError"
  by (auto simp add: row_line_def bad_row_count_def mysql_line_def Let_def py_int_isdigit)

lemma mysql_line_node:
  assumes "row_line line" "\<not> bad_row_count (mysql_cells line ! 9)"
  shows "mysql_line line =
     Inr ([\<lparr>node_type = PStr (mysql_cells line ! 4), relation = PStr (mysql_cells line ! 2),
             cost = PNone,
             rows = (if isdigit (mysql_cells line ! 9)
                     then PInt (int_of_digits (mysql_cells line ! 9)) else PNone),
             actual_time = PNone, actual_rows = PNone, loops = PNone,
             children = [], node_raw = line, warnings = []\<rparr>],
          mysql_row_issues (mysql_cells line ! 2) (mysql_cells line ! 4)
            (if 11 < length (mysql_cells line) then mysql_cells line ! 11 else []))"
proof -
  have ne: "mysql_cells line ! 4 \<noteq> []"
  proof -
    have "mysql_cells line ! 4 \<in> set (mysql_cells line)"
      using assms(1) by (simp add: row_line_def)
    then show ?thesis by (simp add: mysql_cells_def)
  qed
  show ?thesis
    using assms ne
    by (auto simp add: row_line_def bad_row_count_def mysql_line_def Let_def py_int_isdigit)
qed

lemma mysql_lines_nodes:
  "parse_lines mysql_line (ns, found) ls = Inr (nodes, issues) \<Longrightarrow>
   map node_raw nodes = map node_raw ns @ filter row_line ls"
proof (induction ls arbitrary: ns found)
  case Nil
  then show ?case by simp
next
  case (Cons l ls)
  show ?case
  proof (cases "row_line l")
    case False
    with Cons.prems have "parse_lines mysql_line (ns, found) ls = Inr (nodes, issues)"
      by (simp add: mysql_line_skip)
    from Cons.IH [OF this] False show ?thesis by simp
  next
    case True
    show ?thesis
    proof (cases "bad_row_count (mysql_cells l ! 9)")
      case True
      with \<open>row_line l\<close> Cons.prems show ?thesis by (simp add: mysql_line_bad)
    next
      case False
      note node = mysql_line_node [OF True False]
      from Cons.prems obtain n f where
        "parse_lines mysql_line (ns @ [n], found @ f) ls = Inr (nodes, issues)" "node_raw n = l"
        unfolding parse_lines.simps node by simp
      from Cons.IH [OF this(1)] this(2) True show ?thesis by simp
    qed
  qed
qed

lemma bad_row_facts:
  "row_line bad_row" "bad_row_count (mysql_cells bad_row ! 9)" "strip bad_row = bad_row"
  "split_from [newline] [] bad_row = [bad_row]"
  unfolding row_line_def bad_row_count_def by code_simp+

lemma good_row_facts:
  "row_line good_row" "\<not> bad_row_count (mysql_cells good_row ! 9)"
  unfolding row_line_def bad_row_count_def by code_simp+

text \<open>
  C10. A line that is not a row (a header line, or a line with fewer than 10 cells that are
  not empty) is skipped: it gives neither a node nor an issue. A row gives exactly one
  node, whose raw text is the line, unless its tenth cell passes \<open>isdigit\<close> and cannot
  be converted by \<open>int\<close>; such a row makes the parser raise ValueError instead of
  giving a node, so the claim's equivalence fails there, as for the row whose count is the
  superscript two. When the parser returns, the raw texts of its nodes are the rows of the
  text, in order.
\<close>

theorem mysql_tabular_row_nodes:
  "(\<not> row_line line \<longrightarrow> mysql_line line = Inr ([], []))
   \<and> (row_line line \<and> \<not> bad_row_count (mysql_cells line ! 9) \<longrightarrow>
        (\<exists>node issues. mysql_line line = Inr ([node], issues) \<and> node_raw node = line))
   \<and> (row_line line \<and> bad_row_count (mysql_cells line ! 9) \<longrightarrow>
        mysql_line line = Inl ValueError)
   \<and> (parse_mysql_tabular text = Inr (nodes, issues) \<longrightarrow>
        map node_raw nodes = filter row_line (split_from [newline] [] (strip text)))
   \<and> row_line bad_row \<and> isdigit (mysql_cells bad_row ! 9)
   \<and> mysql_line bad_row = Inl ValueError
   \<and> parse_mysql_tabular bad_row = Inl ValueError"
proof (intro conjI impI)
  show "mysql_line line = Inr ([], [])" if "\<not> row_line line"
    using that by (rule mysql_line_skip)
  show "\<exists>node issues. mysql_line line = Inr ([node], issues) \<and> node_raw node = line"
    if "row_line line \<and> \<not> bad_row_count (mysql_cells line ! 9)"
    using that by (simp add: mysql_line_node)
  show "mysql_line line = Inl ValueError"
    if "row_line line \<and> bad_row_count (mysql_cells line ! 9)"
    using that by (simp add: mysql_line_bad)
  show "map node_raw nodes = filter row_line (split_from [newline] [] (strip text))"
    if "parse_mysql_tabular text = Inr (nodes, issues)"
    using mysql_lines_nodes [of "[]" "[]" "split_from [newline] [] (strip text)" nodes issues] that
    by (simp add: parse_mysql_tabular_def)
  show "row_line bad_row" by (rule bad_row_facts)
  show "isdigit (mysql_cells bad_row ! 9)"
    using bad_row_facts(2) by (simp add: bad_row_count_def)
  show b: "mysql_line bad_row = Inl ValueError"
    by (rule mysql_line_bad) (rule bad_row_facts)+
  show "parse_mysql_tabular bad_row = Inl ValueError"
    by (simp add: parse_mysql_tabular_def bad_row_facts b)
qed

theorem mysql_tabular_row_nodes_witness:
  "(\<exists>node issues. mysql_line good_row = Inr ([node], issues) \<and> node_raw node = good_row)
   \<and> mysql_line ''| id | select_type | table |'' = Inr ([], [])"
proof -
  have s: "\<not> row_line ''| id | select_type | table |''"
    unfolding row_line_def by code_simp
  show ?thesis
    using mysql_tabular_row_nodes [of good_row] mysql_tabular_row_nodes [of "''| id | select_type | table |''"]
      good_row_facts s
    by blast
qed

end
